theory Spec2Isabelle
  imports Main "HOL-Library.Word" "HOL-Library.AList" "HOL-Library.Sublist"
begin

section \<open>Strings of the source language\<close>

text \<open>
  A string of the source is a sequence of 16-bit code units; the two regular expressions of
  \<^verbatim>\<open>normalizePageName\<close> carry no \<^verbatim>\<open>u\<close> flag, so they work on code units.
  File contents are sequences of bytes.
\<close>

type_synonym jschar = "16 word"
type_synonym jsstring = "jschar list"
type_synonym bytes = "8 word list"

text \<open>An ASCII literal of the source, written as an Isabelle string.\<close>

definition js :: "string \<Rightarrow> jsstring" where
  "js s = map (\<lambda>c. of_nat (of_char c)) s"

text \<open>
  The class \<^verbatim>\<open>\s\<close> of a regular expression: the white space and line terminator code
  points of the language (TAB, LF, VT, FF, CR, SP, NBSP, U+1680, U+2000..U+200A, U+2028,
  U+2029, U+202F, U+205F, U+3000, U+FEFF).
\<close>

definition isSpace :: "jschar \<Rightarrow> bool" where
  "isSpace c = (c = 0x09 \<or> c = 0x0A \<or> c = 0x0B \<or> c = 0x0C \<or> c = 0x0D \<or> c = 0x20
     \<or> c = 0xA0 \<or> c = 0x1680 \<or> (0x2000 \<le> c \<and> c \<le> 0x200A) \<or> c = 0x2028 \<or> c = 0x2029
     \<or> c = 0x202F \<or> c = 0x205F \<or> c = 0x3000 \<or> c = 0xFEFF)"

text \<open>The members of the class \<^verbatim>\<open>[a-zA-Z0-9\-_]\<close>, range by range.\<close>

definition isLower :: "jschar \<Rightarrow> bool" where
  "isLower c = (0x61 \<le> c \<and> c \<le> 0x7A)"

definition isUpper :: "jschar \<Rightarrow> bool" where
  "isUpper c = (0x41 \<le> c \<and> c \<le> 0x5A)"

definition isDigit :: "jschar \<Rightarrow> bool" where
  "isDigit c = (0x30 \<le> c \<and> c \<le> 0x39)"

definition hyphen :: jschar where
  "hyphen = 0x2D"

definition underscore :: jschar where
  "underscore = 0x5F"

definition inClass :: "jschar \<Rightarrow> bool" where
  "inClass c = (isLower c \<or> isUpper c \<or> isDigit c \<or> c = hyphen \<or> c = underscore)"

subsection \<open>Global replacement by a regular expression\<close>

text \<open>
  \<^verbatim>\<open>s.replace(/re/g, r)\<close> scans \<^verbatim>\<open>s\<close> from the left: where the expression matches,
  the match is replaced by \<^verbatim>\<open>r\<close> and the scan goes on behind it; where it does not, the
  code unit is kept. A matcher gives the length of the match that starts at the head of the
  rest of the input, \<open>0\<close> for no match; neither expression of the source matches the empty
  string.
\<close>

function replace_g :: "(jsstring \<Rightarrow> nat) \<Rightarrow> jsstring \<Rightarrow> jsstring \<Rightarrow> jsstring" where
  "replace_g m r [] = []"
| "replace_g m r (c # cs) =
     (case m (c # cs) of
        0 \<Rightarrow> c # replace_g m r cs
      | Suc k \<Rightarrow> r @ replace_g m r (drop k cs))"
  by pat_completeness auto
termination
  by (relation "measure (\<lambda>(m, r, s). length s)") auto

text \<open>\<^verbatim>\<open>/\s+/\<close>: the longest run of white space at the head (the quantifier is greedy).\<close>

definition re_spaces :: "jsstring \<Rightarrow> nat" where
  "re_spaces s = length (takeWhile isSpace s)"

text \<open>\<^verbatim>\<open>/[^a-zA-Z0-9\-_]/\<close>: one code unit outside the class.\<close>

definition re_not_in_class :: "jsstring \<Rightarrow> nat" where
  "re_not_in_class s = (case s of [] \<Rightarrow> 0 | c # _ \<Rightarrow> if inClass c then 0 else 1)"

text \<open>\<^verbatim>\<open>s.endsWith(t)\<close>.\<close>

definition endsWith :: "jsstring \<Rightarrow> jsstring \<Rightarrow> bool" where
  "endsWith s t = (length t \<le> length s \<and> drop (length s - length t) s = t)"

text \<open>
  \<^verbatim>\<open>s.replace(pat, rep)\<close> with a string pattern: the first occurrence only. The
  replacement strings of the source hold no \<^verbatim>\<open>$\<close>.
\<close>

fun replace_first :: "jsstring \<Rightarrow> jsstring \<Rightarrow> jsstring \<Rightarrow> jsstring" where
  "replace_first pat rep [] = (if pat = [] then rep else [])"
| "replace_first pat rep (c # cs) =
     (if take (length pat) (c # cs) = pat then rep @ drop (length pat) (c # cs)
      else c # replace_first pat rep cs)"

section \<open>Page identity: \<^verbatim>\<open>normalizePageName\<close>\<close>

definition md :: jsstring where
  "md = js ''.md''"

definition normalizePageName :: "jsstring \<Rightarrow> jsstring" where
  "normalizePageName pageName =
     (let normalized = replace_g re_not_in_class [] (replace_g re_spaces (js ''-'') pageName)
      in if endsWith normalized md then normalized else normalized @ md)"

section \<open>The world outside the operations\<close>

subsection \<open>Thrown values\<close>

text \<open>
  A thrown value is an \<^verbatim>\<open>Error\<close> object with its message, or some other value, kept
  by what \<^verbatim>\<open>String(value)\<close> gives.
\<close>

datatype js_exn = Error jsstring | NonError jsstring

text \<open>\<^verbatim>\<open>error instanceof Error ? error.message : String(error)\<close>\<close>

fun error_text :: "js_exn \<Rightarrow> jsstring" where
  "error_text (Error m) = m"
| "error_text (NonError v) = v"

subsection \<open>The remote store, the local disk and the log of calls\<close>

text \<open>
  The remote wiki store is the tree of its \<^verbatim>\<open>master\<close> branch: the files at the root, by
  name, in the order in which a directory listing gives them. A working copy is a temporary
  directory holding the files of the working tree, the staged tree and the tree of the local
  branch. Subdirectories (such as \<^verbatim>\<open>.git\<close>) are left out: no name the operations compute
  addresses one.
\<close>

type_synonym tree = "(jsstring \<times> bytes) list"

record workcopy =
  worktree :: tree
  staged :: tree
  committed :: tree

datatype event =
    Mkdtemp jsstring
  | Clone jsstring jsstring
  | Rm jsstring
  | Access jsstring jsstring
  | ReadFile jsstring jsstring
  | WriteFile jsstring jsstring
  | Unlink jsstring jsstring
  | Readdir jsstring
  | Stat jsstring jsstring
  | GitAdd jsstring jsstring
  | GitCommit jsstring jsstring
  | GitPush jsstring jsstring jsstring
  | ConsoleError jsstring js_exn

record world =
  remote :: tree
  disk :: "(jsstring \<times> workcopy) list"
  trace :: "event list"

text \<open>
  What the runtime, the file system and the version-control client do is not code of the
  repository. An environment fixes it for one operation: the temporary directory of the
  platform, the outcome of \<^verbatim>\<open>mkdtemp\<close> (a thrown value, or the random characters it
  appends), for every other call the value it throws if it fails, the value the client throws
  for an argument it reads as an option it does not know, the \<^verbatim>\<open>'utf-8'\<close> codec of the
  runtime and the collation behind \<^verbatim>\<open>localeCompare\<close>.
\<close>

record env =
  os_tmpdir :: jsstring
  mkdtemp_result :: "js_exn + jsstring"
  clone_fail :: "js_exn option"
  rm_fail :: "js_exn option"
  access_fail :: "js_exn option"
  readFile_fail :: "js_exn option"
  writeFile_fail :: "js_exn option"
  unlink_fail :: "js_exn option"
  readdir_fail :: "js_exn option"
  stat_fail :: "jsstring \<Rightarrow> js_exn option"
  add_fail :: "js_exn option"
  option_error :: "jsstring \<Rightarrow> js_exn"
  commit_fail :: "js_exn option"
  push_fail :: "js_exn option"
  encode :: "jsstring \<Rightarrow> bytes"
  decode :: "bytes \<Rightarrow> jsstring"
  localeCompare :: "jsstring \<Rightarrow> jsstring \<Rightarrow> int"

subsection \<open>Asynchronous calls: a state and a thrown value or a result\<close>

type_synonym 'a io = "world \<Rightarrow> (js_exn + 'a) \<times> world"

definition return :: "'a \<Rightarrow> 'a io" where
  "return x w = (Inr x, w)"

definition throw :: "js_exn \<Rightarrow> 'a io" where
  "throw e w = (Inl e, w)"

definition bind :: "'a io \<Rightarrow> ('a \<Rightarrow> 'b io) \<Rightarrow> 'b io" where
  "bind m f w = (case m w of (Inl e, w1) \<Rightarrow> (Inl e, w1) | (Inr x, w1) \<Rightarrow> f x w1)"

text \<open>\<^verbatim>\<open>try { m } catch (error) { h }\<close>\<close>

definition try_catch :: "'a io \<Rightarrow> (js_exn \<Rightarrow> 'a io) \<Rightarrow> 'a io" where
  "try_catch m h w = (case m w of (Inl e, w1) \<Rightarrow> h e w1 | (Inr x, w1) \<Rightarrow> (Inr x, w1))"

text \<open>
  \<^verbatim>\<open>try { m } finally { f }\<close>: the block \<^verbatim>\<open>f\<close> runs on both exits of \<^verbatim>\<open>m\<close>; what it
  throws replaces the outcome of \<^verbatim>\<open>m\<close>.
\<close>

definition try_finally :: "'a io \<Rightarrow> unit io \<Rightarrow> 'a io" where
  "try_finally m f w =
     (case m w of (r, w1) \<Rightarrow>
        (case f w1 of (Inl e, w2) \<Rightarrow> (Inl e, w2) | (Inr _, w2) \<Rightarrow> (r, w2)))"

definition emit :: "event \<Rightarrow> world \<Rightarrow> world" where
  "emit ev w = w\<lparr>trace := trace w @ [ev]\<rparr>"

subsection \<open>The calls of the file system\<close>

text \<open>
  \<^verbatim>\<open>path.join(a, b)\<close> for two segments that need no normalisation. The file calls below
  take the directory and the name of the entry apart: every name the operations join to the
  temporary directory is a file name without a separator.
\<close>

definition path_join :: "jsstring \<Rightarrow> jsstring \<Rightarrow> jsstring" where
  "path_join a b = (if a = [] then b else if b = [] then a else a @ js ''/'' @ b)"

definition enoent :: "jsstring \<Rightarrow> jsstring \<Rightarrow> js_exn" where
  "enoent dir file = Error (js ''ENOENT: no such file or directory, '' @ path_join dir file)"

definition empty_copy :: workcopy where
  "empty_copy = \<lparr>worktree = [], staged = [], committed = []\<rparr>"

definition fs_mkdtemp :: "env \<Rightarrow> jsstring \<Rightarrow> jsstring io" where
  "fs_mkdtemp env pfx w =
     (let w1 = emit (Mkdtemp pfx) w in
      case mkdtemp_result env of
        Inl e \<Rightarrow> (Inl e, w1)
      | Inr random \<Rightarrow>
          (Inr (pfx @ random),
           w1\<lparr>disk := AList.update (pfx @ random) empty_copy (disk w1)\<rparr>))"

text \<open>\<^verbatim>\<open>fs.rm(dir, { recursive: true, force: true })\<close>: a missing directory is no error.\<close>

definition fs_rm :: "env \<Rightarrow> jsstring \<Rightarrow> unit io" where
  "fs_rm env dir w =
     (let w1 = emit (Rm dir) w in
      case rm_fail env of
        Some e \<Rightarrow> (Inl e, w1)
      | None \<Rightarrow> (Inr (), w1\<lparr>disk := AList.delete dir (disk w1)\<rparr>))"

definition fs_access :: "env \<Rightarrow> jsstring \<Rightarrow> jsstring \<Rightarrow> unit io" where
  "fs_access env dir file w =
     (let w1 = emit (Access dir file) w in
      case map_of (disk w1) dir of
        None \<Rightarrow> (Inl (enoent dir file), w1)
      | Some wc \<Rightarrow>
          (case map_of (worktree wc) file of
             None \<Rightarrow> (Inl (enoent dir file), w1)
           | Some b \<Rightarrow>
               (case access_fail env of
                  Some e \<Rightarrow> (Inl e, w1)
                | None \<Rightarrow> (Inr (), w1))))"

text \<open>\<^verbatim>\<open>fs.readFile(path, 'utf-8')\<close>\<close>

definition fs_readFile :: "env \<Rightarrow> jsstring \<Rightarrow> jsstring \<Rightarrow> jsstring io" where
  "fs_readFile env dir file w =
     (let w1 = emit (ReadFile dir file) w in
      case map_of (disk w1) dir of
        None \<Rightarrow> (Inl (enoent dir file), w1)
      | Some wc \<Rightarrow>
          (case map_of (worktree wc) file of
             None \<Rightarrow> (Inl (enoent dir file), w1)
           | Some b \<Rightarrow>
               (case readFile_fail env of
                  Some e \<Rightarrow> (Inl e, w1)
                | None \<Rightarrow> (Inr (decode env b), w1))))"

text \<open>\<^verbatim>\<open>fs.writeFile(path, data, 'utf-8')\<close>: creates the file or replaces its contents.\<close>

definition fs_writeFile :: "env \<Rightarrow> jsstring \<Rightarrow> jsstring \<Rightarrow> jsstring \<Rightarrow> unit io" where
  "fs_writeFile env dir file data w =
     (let w1 = emit (WriteFile dir file) w in
      case map_of (disk w1) dir of
        None \<Rightarrow> (Inl (enoent dir file), w1)
      | Some wc \<Rightarrow>
          (case writeFile_fail env of
             Some e \<Rightarrow> (Inl e, w1)
           | None \<Rightarrow>
               (Inr (),
                w1\<lparr>disk := AList.update dir
                  (wc\<lparr>worktree := AList.update file (encode env data) (worktree wc)\<rparr>) (disk w1)\<rparr>)))"

definition fs_unlink :: "env \<Rightarrow> jsstring \<Rightarrow> jsstring \<Rightarrow> unit io" where
  "fs_unlink env dir file w =
     (let w1 = emit (Unlink dir file) w in
      case map_of (disk w1) dir of
        None \<Rightarrow> (Inl (enoent dir file), w1)
      | Some wc \<Rightarrow>
          (case map_of (worktree wc) file of
             None \<Rightarrow> (Inl (enoent dir file), w1)
           | Some b \<Rightarrow>
               (case unlink_fail env of
                  Some e \<Rightarrow> (Inl e, w1)
                | None \<Rightarrow>
                    (Inr (),
                     w1\<lparr>disk := AList.update dir
                       (wc\<lparr>worktree := AList.delete file (worktree wc)\<rparr>) (disk w1)\<rparr>))))"

definition fs_readdir :: "env \<Rightarrow> jsstring \<Rightarrow> jsstring list io" where
  "fs_readdir env dir w =
     (let w1 = emit (Readdir dir) w in
      case map_of (disk w1) dir of
        None \<Rightarrow> (Inl (enoent dir []), w1)
      | Some wc \<Rightarrow>
          (case readdir_fail env of
             Some e \<Rightarrow> (Inl e, w1)
           | None \<Rightarrow> (Inr (map fst (worktree wc)), w1)))"

text \<open>\<^verbatim>\<open>(await fs.stat(path)).size\<close>: the number of bytes of the file.\<close>

definition fs_stat_size :: "env \<Rightarrow> jsstring \<Rightarrow> jsstring \<Rightarrow> nat io" where
  "fs_stat_size env dir file w =
     (let w1 = emit (Stat dir file) w in
      case map_of (disk w1) dir of
        None \<Rightarrow> (Inl (enoent dir file), w1)
      | Some wc \<Rightarrow>
          (case map_of (worktree wc) file of
             None \<Rightarrow> (Inl (enoent dir file), w1)
           | Some b \<Rightarrow>
               (case stat_fail env file of
                  Some e \<Rightarrow> (Inl e, w1)
                | None \<Rightarrow> (Inr (length b), w1))))"

text \<open>\<^verbatim>\<open>console.error(text, error)\<close>\<close>

definition console_error :: "jsstring \<Rightarrow> js_exn \<Rightarrow> unit io" where
  "console_error text error w = (Inr (), emit (ConsoleError text error) w)"

subsection \<open>The calls of the version-control client\<close>

text \<open>\<^verbatim>\<open>git.clone(url, dir)\<close>: the three trees of the new working copy are the remote one.\<close>

definition git_clone :: "env \<Rightarrow> jsstring \<Rightarrow> jsstring \<Rightarrow> unit io" where
  "git_clone env url dir w =
     (let w1 = emit (Clone url dir) w in
      case clone_fail env of
        Some e \<Rightarrow> (Inl e, w1)
      | None \<Rightarrow>
          (Inr (),
           w1\<lparr>disk := AList.update dir
             \<lparr>worktree = remote w1, staged = remote w1, committed = remote w1\<rparr> (disk w1)\<rparr>))"

text \<open>
  \<^verbatim>\<open>git.add(file)\<close> in the working copy. The source gives the file name to the client
  as it is, and the client puts it on the command line of \<^verbatim>\<open>git add\<close> with no
  \<^verbatim>\<open>--\<close> before it: a name that begins with a hyphen is read as options, not as a
  path. The names the operations stage end with \<^verbatim>\<open>.md\<close>, and no option of
  \<^verbatim>\<open>git add\<close> has a full stop in it, so for such a name the call fails whatever the
  environment is. Otherwise the state of the file in the working tree, its absence too, goes
  to the staged tree; a path that is in neither tree matches nothing, which the client
  reports as a failure.
\<close>

definition is_option :: "jsstring \<Rightarrow> bool" where
  "is_option file = (case file of [] \<Rightarrow> False | c # _ \<Rightarrow> c = hyphen)"

definition git_add :: "env \<Rightarrow> jsstring \<Rightarrow> jsstring \<Rightarrow> unit io" where
  "git_add env dir file w =
     (let w1 = emit (GitAdd dir file) w in
      case map_of (disk w1) dir of
        None \<Rightarrow> (Inl (enoent dir file), w1)
      | Some wc \<Rightarrow>
          if is_option file then (Inl (option_error env file), w1)
          else
            (case add_fail env of
               Some e \<Rightarrow> (Inl e, w1)
             | None \<Rightarrow>
                 (case map_of (worktree wc) file of
                    Some b \<Rightarrow>
                      (Inr (),
                       w1\<lparr>disk := AList.update dir
                         (wc\<lparr>staged := AList.update file b (staged wc)\<rparr>) (disk w1)\<rparr>)
                  | None \<Rightarrow>
                      (case map_of (staged wc) file of
                         Some b \<Rightarrow>
                           (Inr (),
                            w1\<lparr>disk := AList.update dir
                              (wc\<lparr>staged := AList.delete file (staged wc)\<rparr>) (disk w1)\<rparr>)
                       | None \<Rightarrow>
                           (Inl (Error (js ''fatal: pathspec did not match any files'')), w1)))))"

definition git_commit :: "env \<Rightarrow> jsstring \<Rightarrow> jsstring \<Rightarrow> unit io" where
  "git_commit env dir msg w =
     (let w1 = emit (GitCommit dir msg) w in
      case map_of (disk w1) dir of
        None \<Rightarrow> (Inl (enoent dir []), w1)
      | Some wc \<Rightarrow>
          (case commit_fail env of
             Some e \<Rightarrow> (Inl e, w1)
           | None \<Rightarrow>
               (Inr (), w1\<lparr>disk := AList.update dir (wc\<lparr>committed := staged wc\<rparr>) (disk w1)\<rparr>)))"

text \<open>\<^verbatim>\<open>git.push(remote, branch)\<close>: the remote tree becomes the tree of the local branch.\<close>

definition git_push :: "env \<Rightarrow> jsstring \<Rightarrow> jsstring \<Rightarrow> jsstring \<Rightarrow> unit io" where
  "git_push env dir rem branch w =
     (let w1 = emit (GitPush dir rem branch) w in
      case map_of (disk w1) dir of
        None \<Rightarrow> (Inl (enoent dir []), w1)
      | Some wc \<Rightarrow>
          (case push_fail env of
             Some e \<Rightarrow> (Inl e, w1)
           | None \<Rightarrow> (Inr (), w1\<lparr>remote := committed wc\<rparr>)))"

section \<open>The wiki operations\<close>

subsection \<open>Arguments and results\<close>

text \<open>
  The interfaces of the source. \<^verbatim>\<open>AppendToWikiPageArgs\<close> has the fields of
  \<^verbatim>\<open>WriteWikiPageArgs\<close>, which has those of \<^verbatim>\<open>DeleteWikiPageArgs\<close> and the content;
  \<^verbatim>\<open>ListWikiPagesArgs\<close> adds nothing to \<^verbatim>\<open>WikiConfig\<close>. An optional field that is
  not given is \<open>None\<close>.
\<close>

record WikiConfig =
  owner :: jsstring
  repo :: jsstring
  token :: jsstring

record DeleteWikiPageArgs = WikiConfig +
  pageName :: jsstring
  commitMessage :: "jsstring option"

record WriteWikiPageArgs = DeleteWikiPageArgs +
  content :: jsstring

type_synonym AppendToWikiPageArgs = WriteWikiPageArgs

type_synonym ListWikiPagesArgs = WikiConfig

record WikiPageInfo =
  name :: jsstring
  path :: jsstring
  size_bytes :: nat

text \<open>The objects the operations return: \<^verbatim>\<open>{ success, page }\<close>, with a URL or the text read.\<close>

record PageResult =
  success :: bool
  page :: jsstring

record WriteResult = PageResult +
  url :: jsstring

record ReadResult = PageResult +
  content_read :: jsstring

subsection \<open>Helpers of the source\<close>

definition getWikiUrl :: "jsstring \<Rightarrow> jsstring \<Rightarrow> jsstring \<Rightarrow> jsstring" where
  "getWikiUrl owner_v repo_v token_v =
     js ''https://'' @ token_v @ js ''@github.com/'' @ owner_v @ js ''/'' @ repo_v @ js ''.wiki.git''"

text \<open>
  \<^verbatim>\<open>cloneWiki\<close> gives the temporary directory and a client bound to it; the model gives the
  directory, which the calls of the client take.
\<close>

definition cloneWiki :: "env \<Rightarrow> 'a WikiConfig_scheme \<Rightarrow> jsstring io" where
  "cloneWiki env config =
     bind (fs_mkdtemp env (path_join (os_tmpdir env) (js ''wiki-''))) (\<lambda>tmpDir.
       let wikiUrl = getWikiUrl (owner config) (repo config) (token config) in
       try_catch
         (bind (git_clone env wikiUrl tmpDir) (\<lambda>_. return tmpDir))
         (\<lambda>error.
            bind (fs_rm env tmpDir) (\<lambda>_.
              throw (Error (js ''Failed to clone wiki: '' @ error_text error)))))"

definition cleanup :: "env \<Rightarrow> jsstring \<Rightarrow> unit io" where
  "cleanup env tmpDir =
     try_catch (fs_rm env tmpDir)
       (\<lambda>error. console_error (js ''Warning: Failed to cleanup '' @ tmpDir @ js '':'') error)"

text \<open>
  The frame every operation has:
  \<^verbatim>\<open>let tmpDir = null; try { const { tmpDir: dir } = await cloneWiki(..); tmpDir = dir; body }
  finally { if (tmpDir) { await cleanup(tmpDir); } }\<close>.
  The variable is assigned once, right after \<^verbatim>\<open>cloneWiki\<close> has returned: it is still
  \<^verbatim>\<open>null\<close> in the \<^verbatim>\<open>finally\<close> block when \<^verbatim>\<open>cloneWiki\<close> has thrown, and the directory
  otherwise. A string is truthy when it is not empty.
\<close>

definition with_clone :: "env \<Rightarrow> 'c WikiConfig_scheme \<Rightarrow> (jsstring \<Rightarrow> 'a io) \<Rightarrow> 'a io" where
  "with_clone env config body w =
     (case cloneWiki env config w of
        (Inl e, w1) \<Rightarrow> try_finally (throw e) (return ()) w1
      | (Inr dir, w1) \<Rightarrow>
          try_finally (body dir) (if dir \<noteq> [] then cleanup env dir else return ()) w1)"

text \<open>\<^verbatim>\<open>commitMessage || fallback\<close>: a missing or an empty message gives the fallback.\<close>

definition or_default :: "jsstring option \<Rightarrow> jsstring \<Rightarrow> jsstring" where
  "or_default m fallback = (case m of None \<Rightarrow> fallback | Some s \<Rightarrow> if s = [] then fallback else s)"

text \<open>
  \<^verbatim>\<open>xs.sort(cmp)\<close>: the sort of the language is stable; insertion from the right end is
  a stable sort.
\<close>

fun insert_sorted :: "('a \<Rightarrow> 'a \<Rightarrow> int) \<Rightarrow> 'a \<Rightarrow> 'a list \<Rightarrow> 'a list" where
  "insert_sorted cmp x [] = [x]"
| "insert_sorted cmp x (y # ys) =
     (if cmp x y \<le> 0 then x # y # ys else y # insert_sorted cmp x ys)"

definition array_sort :: "('a \<Rightarrow> 'a \<Rightarrow> int) \<Rightarrow> 'a list \<Rightarrow> 'a list" where
  "array_sort cmp xs = foldr (insert_sorted cmp) xs []"

subsection \<open>\<^verbatim>\<open>writeWikiPage\<close>\<close>

definition writeWikiPage :: "env \<Rightarrow> WriteWikiPageArgs \<Rightarrow> WriteResult io" where
  "writeWikiPage env args =
     (let fileName = normalizePageName (pageName args) in
      with_clone env args (\<lambda>tmpDir.
        bind (fs_writeFile env tmpDir fileName (content args)) (\<lambda>_.
        bind (git_add env tmpDir fileName) (\<lambda>_.
        bind (git_commit env tmpDir
                (or_default (commitMessage args) (js ''Update '' @ fileName))) (\<lambda>_.
        bind (git_push env tmpDir (js ''origin'') (js ''master'')) (\<lambda>_.
        return \<lparr>success = True, page = fileName,
          url = js ''https://github.com/'' @ owner args @ js ''/'' @ repo args
                  @ js ''/wiki/'' @ replace_first md [] fileName\<rparr>))))))"

subsection \<open>\<^verbatim>\<open>appendToWikiPage\<close>\<close>

definition separator :: jsstring where
  "separator = [0x0A, 0x0A]"

definition appendToWikiPage :: "env \<Rightarrow> AppendToWikiPageArgs \<Rightarrow> PageResult io" where
  "appendToWikiPage env args =
     (let fileName = normalizePageName (pageName args) in
      with_clone env args (\<lambda>tmpDir.
        bind (try_catch (fs_readFile env tmpDir fileName) (\<lambda>error. return []))
          (\<lambda>existingContent.
        let newContent =
          (if existingContent \<noteq> [] then existingContent @ separator @ content args
           else content args) in
        bind (fs_writeFile env tmpDir fileName newContent) (\<lambda>_.
        bind (git_add env tmpDir fileName) (\<lambda>_.
        bind (git_commit env tmpDir
                (or_default (commitMessage args) (js ''Append to '' @ fileName))) (\<lambda>_.
        bind (git_push env tmpDir (js ''origin'') (js ''master'')) (\<lambda>_.
        return \<lparr>success = True, page = fileName\<rparr>)))))))"

subsection \<open>\<^verbatim>\<open>listWikiPages\<close>\<close>

text \<open>The loop over the markdown files, pushing one record for each.\<close>

fun stat_files :: "env \<Rightarrow> jsstring \<Rightarrow> jsstring list \<Rightarrow> WikiPageInfo list \<Rightarrow> WikiPageInfo list io" where
  "stat_files env tmpDir [] pageInfos = return pageInfos"
| "stat_files env tmpDir (file # rest) pageInfos =
     bind (fs_stat_size env tmpDir file) (\<lambda>sz.
       stat_files env tmpDir rest
         (pageInfos @ [\<lparr>name = replace_first md [] file, path = file, size_bytes = sz\<rparr>]))"

definition listWikiPages :: "env \<Rightarrow> ListWikiPagesArgs \<Rightarrow> WikiPageInfo list io" where
  "listWikiPages env args =
     with_clone env args (\<lambda>tmpDir.
       bind (fs_readdir env tmpDir) (\<lambda>files.
       let mdFiles = filter (\<lambda>f. endsWith f md) files in
       bind (stat_files env tmpDir mdFiles []) (\<lambda>pageInfos.
       return (array_sort (\<lambda>a b. localeCompare env (name a) (name b)) pageInfos))))"

subsection \<open>\<^verbatim>\<open>deleteWikiPage\<close>\<close>

definition not_found :: "jsstring \<Rightarrow> js_exn" where
  "not_found fileName = Error (js ''Page '' @ fileName @ js '' does not exist'')"

definition deleteWikiPage :: "env \<Rightarrow> DeleteWikiPageArgs \<Rightarrow> PageResult io" where
  "deleteWikiPage env args =
     (let fileName = normalizePageName (pageName args) in
      with_clone env args (\<lambda>tmpDir.
        bind (try_catch (fs_access env tmpDir fileName) (\<lambda>error. throw (not_found fileName)))
          (\<lambda>_.
        bind (fs_unlink env tmpDir fileName) (\<lambda>_.
        bind (git_add env tmpDir fileName) (\<lambda>_.
        bind (git_commit env tmpDir
                (or_default (commitMessage args) (js ''Delete '' @ fileName))) (\<lambda>_.
        bind (git_push env tmpDir (js ''origin'') (js ''master'')) (\<lambda>_.
        return \<lparr>success = True, page = fileName\<rparr>)))))))"

subsection \<open>\<^verbatim>\<open>readWikiPage\<close>\<close>

definition readWikiPage :: "env \<Rightarrow> WriteWikiPageArgs \<Rightarrow> ReadResult io" where
  "readWikiPage env args =
     (let fileName = normalizePageName (pageName args) in
      with_clone env args (\<lambda>tmpDir.
        bind (try_catch (fs_access env tmpDir fileName) (\<lambda>error. throw (not_found fileName)))
          (\<lambda>_.
        bind (fs_readFile env tmpDir fileName) (\<lambda>text.
        return \<lparr>success = True, page = fileName, content_read = text\<rparr>))))"

section \<open>The page-name algorithm in the words of the specification\<close>

text \<open>
  The specification describes the resolver in three steps. They are written down here on their
  own, to be compared with \<^const>\<open>normalizePageName\<close>. A maximal run is a longest stretch
  of neighbouring code units that are all white space, or all not; the letters and digits are
  those of the class of the source, \<^verbatim>\<open>a-z\<close>, \<^verbatim>\<open>A-Z\<close> and \<^verbatim>\<open>0-9\<close>.
\<close>

definition sameKind :: "jschar \<Rightarrow> jschar \<Rightarrow> bool" where
  "sameKind c d = (isSpace d = isSpace c)"

function runs :: "jsstring \<Rightarrow> jsstring list" where
  "runs [] = []"
| "runs (c # cs) = (c # takeWhile (sameKind c) cs) # runs (dropWhile (sameKind c) cs)"
  by pat_completeness auto
termination
  by (relation "measure length") (auto simp: length_dropWhile_le less_Suc_eq_le)

text \<open>Neighbouring runs are of different kinds: no run can be made longer.\<close>

fun alternating :: "jsstring list \<Rightarrow> bool" where
  "alternating (r # s # rs) = (\<not> sameKind (hd r) (hd s) \<and> alternating (s # rs))"
| "alternating _ = True"

text \<open>(a) every maximal run of white space becomes a single hyphen\<close>

definition spec_step_a :: "jsstring \<Rightarrow> jsstring" where
  "spec_step_a t =
     concat (map (\<lambda>r. case r of [] \<Rightarrow> [] | c # _ \<Rightarrow> if isSpace c then [hyphen] else r) (runs t))"

text \<open>(b) what is left and is no letter, digit, hyphen or underscore is deleted\<close>

definition isLetter :: "jschar \<Rightarrow> bool" where
  "isLetter c = (isLower c \<or> isUpper c)"

definition spec_step_b :: "jsstring \<Rightarrow> jsstring" where
  "spec_step_b s = filter (\<lambda>c. isLetter c \<or> isDigit c \<or> c = hyphen \<or> c = underscore) s"

text \<open>(c) the extension is appended unless the result ends with it\<close>

definition spec_step_c :: "jsstring \<Rightarrow> jsstring" where
  "spec_step_c s = (if suffix md s then s else s @ md)"

definition spec_normalize :: "jsstring \<Rightarrow> jsstring" where
  "spec_normalize t = spec_step_c (spec_step_b (spec_step_a t))"

section \<open>Notions used to state the properties\<close>

text \<open>
  The temporary directory an operation gets, and the world right after its
  \<^const>\<open>cloneWiki\<close> has returned.
\<close>

definition tmp_dir :: "env \<Rightarrow> jsstring" where
  "tmp_dir env =
     (case mkdtemp_result env of
        Inl _ \<Rightarrow> []
      | Inr random \<Rightarrow> path_join (os_tmpdir env) (js ''wiki-'') @ random)"

definition cloned :: "env \<Rightarrow> 'a WikiConfig_scheme \<Rightarrow> world \<Rightarrow> world" where
  "cloned env config w =
     w\<lparr>trace := trace w @ [Mkdtemp (path_join (os_tmpdir env) (js ''wiki-'')),
          Clone (getWikiUrl (owner config) (repo config) (token config)) (tmp_dir env)],
       disk := AList.update (tmp_dir env)
          \<lparr>worktree = remote w, staged = remote w, committed = remote w\<rparr> (disk w)\<rparr>"

text \<open>The removals attempted so far, and the last call made, warnings on the console aside.\<close>

fun is_rm :: "event \<Rightarrow> bool" where
  "is_rm (Rm _) = True"
| "is_rm _ = False"

fun is_console :: "event \<Rightarrow> bool" where
  "is_console (ConsoleError _ _) = True"
| "is_console _ = False"

fun is_clone :: "event \<Rightarrow> bool" where
  "is_clone (Clone _ _) = True"
| "is_clone _ = False"

definition removals :: "world \<Rightarrow> event list" where
  "removals w = filter is_rm (trace w)"

definition last_call :: "world \<Rightarrow> event option" where
  "last_call w =
     (case rev (filter (\<lambda>ev. \<not> is_console ev) (trace w)) of [] \<Rightarrow> None | ev # _ \<Rightarrow> Some ev)"

text \<open>A computation that attempts no removal.\<close>

definition quiet :: "'a io \<Rightarrow> bool" where
  "quiet m = (\<forall>w. removals (snd (m w)) = removals w)"

text \<open>
  An operation, as a function of its environment, cleans up once: one removal is attempted,
  that of its temporary directory, as its last call; and with any other outcome \<open>x\<close> of the
  removal the operation returns or throws the same, and leaves the same remote store.
\<close>

definition cleans_up_once :: "(env \<Rightarrow> 'a io) \<Rightarrow> env \<Rightarrow> js_exn option \<Rightarrow> world \<Rightarrow> bool" where
  "cleans_up_once operation env x w =
     (removals (snd (operation env w)) = removals w @ [Rm (tmp_dir env)]
      \<and> last_call (snd (operation env w)) = Some (Rm (tmp_dir env))
      \<and> fst (operation (env\<lparr>rm_fail := x\<rparr>) w) = fst (operation env w)
      \<and> remote (snd (operation (env\<lparr>rm_fail := x\<rparr>) w)) = remote (snd (operation env w)))"

text \<open>
  The values an operation can throw before its working copy stands, and the values thrown by
  the calls that write the file of a page and publish it.
\<close>

definition of_option :: "'a option \<Rightarrow> 'a list" where
  "of_option x = (case x of None \<Rightarrow> [] | Some e \<Rightarrow> [e])"

definition clone_failures :: "env \<Rightarrow> js_exn list" where
  "clone_failures env =
     (case mkdtemp_result env of Inl e \<Rightarrow> [e] | Inr _ \<Rightarrow> [])
     @ (case clone_fail env of
          None \<Rightarrow> []
        | Some e \<Rightarrow> Error (js ''Failed to clone wiki: '' @ error_text e) # of_option (rm_fail env))"

definition push_failures :: "env \<Rightarrow> jsstring \<Rightarrow> js_exn list" where
  "push_failures env file =
     of_option (writeFile_fail env)
     @ (if is_option file then [option_error env file] else of_option (add_fail env))
     @ of_option (commit_fail env) @ of_option (push_fail env)"

text \<open>The text of a page in the remote store, as the codec of the environment reads it.\<close>

definition page_text :: "env \<Rightarrow> world \<Rightarrow> jsstring \<Rightarrow> jsstring option" where
  "page_text env w file = map_option (decode env) (map_of (remote w) file)"

text \<open>The record \<^verbatim>\<open>listWikiPages\<close> builds for a file of a tree.\<close>

definition page_info :: "tree \<Rightarrow> jsstring \<Rightarrow> WikiPageInfo" where
  "page_info t file =
     \<lparr>name = replace_first md [] file, path = file,
      size_bytes = (case map_of t file of None \<Rightarrow> 0 | Some b \<Rightarrow> length b)\<rparr>"

section \<open>A sample environment and store\<close>

text \<open>
  The \<^verbatim>\<open>'utf-8'\<close> codec on ASCII text, where a code unit is one byte; a collation that
  compares code units; an environment in which no call fails; a store of four files, one of
  them of zero length.
\<close>

definition ascii_encode :: "jsstring \<Rightarrow> bytes" where
  "ascii_encode s = map (\<lambda>c. if c < 0x80 then ucast c else 0x3F) s"

definition ascii_decode :: "bytes \<Rightarrow> jsstring" where
  "ascii_decode b = map (\<lambda>c. if c < 0x80 then ucast c else 0xFFFD) b"

fun compare_units :: "jsstring \<Rightarrow> jsstring \<Rightarrow> int" where
  "compare_units [] [] = 0"
| "compare_units [] (y # ys) = - 1"
| "compare_units (x # xs) [] = 1"
| "compare_units (x # xs) (y # ys) =
     (if x < y then - 1 else if y < x then 1 else compare_units xs ys)"

definition env_ok :: env where
  "env_ok = \<lparr>os_tmpdir = js ''/tmp'', mkdtemp_result = Inr (js ''Ab12Cd''), clone_fail = None,
     rm_fail = None, access_fail = None, readFile_fail = None, writeFile_fail = None,
     unlink_fail = None, readdir_fail = None, stat_fail = (\<lambda>_. None), add_fail = None,
     option_error = (\<lambda>_. Error (js ''error: unknown switch'')), commit_fail = None, push_fail = None, encode = ascii_encode, decode = ascii_decode,
     localeCompare = compare_units\<rparr>"

definition wiki :: WikiConfig where
  "wiki = \<lparr>owner = js ''octo'', repo = js ''demo'', token = js ''s3cret''\<rparr>"

definition home_args :: WriteWikiPageArgs where
  "home_args = \<lparr>owner = js ''octo'', repo = js ''demo'', token = js ''s3cret'',
     pageName = js ''Home'', commitMessage = None, content = js ''new''\<rparr>"

definition faq_args :: WriteWikiPageArgs where
  "faq_args = \<lparr>owner = js ''octo'', repo = js ''demo'', token = js ''s3cret'',
     pageName = js ''FAQ'', commitMessage = None, content = js ''# FAQ''\<rparr>"

definition empty_page_args :: WriteWikiPageArgs where
  "empty_page_args = \<lparr>owner = js ''octo'', repo = js ''demo'', token = js ''s3cret'',
     pageName = js ''Empty'', commitMessage = None, content = js ''first''\<rparr>"

definition spaced_args :: WriteWikiPageArgs where
  "spaced_args = \<lparr>owner = js ''octo'', repo = js ''demo'', token = js ''s3cret'',
     pageName = js '' x'', commitMessage = None, content = js ''text''\<rparr>"

definition faq_delete_args :: DeleteWikiPageArgs where
  "faq_delete_args = \<lparr>owner = js ''octo'', repo = js ''demo'', token = js ''s3cret'',
     pageName = js ''FAQ'', commitMessage = None\<rparr>"

definition store0 :: world where
  "store0 = \<lparr>remote = [(js ''Home.md'', ascii_encode (js ''old'')),
                        (js ''notes.mdx.md'', ascii_encode (js ''abc'')),
                        (js ''logo.png'', [0x89, 0x50]),
                        (js ''Empty.md'', [])],
             disk = [], trace = []\<rparr>"

text \<open>Environments in which a push is rejected and the removal fails, in which an existing
  file cannot be read, and in which the clone and the removal fail.\<close>

definition env_rejected :: env where
  "env_rejected = env_ok\<lparr>push_fail := Some (Error (js ''rejected'')),
     rm_fail := Some (Error (js ''EBUSY''))\<rparr>"

definition env_unreadable :: env where
  "env_unreadable = env_ok\<lparr>readFile_fail := Some (Error (js ''EACCES''))\<rparr>"

definition env_no_clone :: env where
  "env_no_clone = env_ok\<lparr>clone_fail := Some (Error (js ''Authentication failed'')),
     rm_fail := Some (Error (js ''EBUSY''))\<rparr>"

text \<open>A page of markdown, and an empty page; above, a title that begins with a space.\<close>

definition markdown_args :: WriteWikiPageArgs where
  "markdown_args = \<lparr>owner = js ''octo'', repo = js ''demo'', token = js ''s3cret'',
     pageName = js ''API Documentation!!'', commitMessage = Some (js ''docs''),
     content = js ''# *API* [link](x) `code` | a_b <!-- -->''\<rparr>"

definition empty_args :: WriteWikiPageArgs where
  "empty_args = \<lparr>owner = js ''octo'', repo = js ''demo'', token = js ''s3cret'',
     pageName = js ''Home'', commitMessage = None, content = []\<rparr>"

section \<open>Properties of the page-name resolver\<close>

lemma space_not_inClass: "isSpace c \<Longrightarrow> \<not> inClass c"
  unfolding isSpace_def inClass_def isLower_def isUpper_def isDigit_def hyphen_def underscore_def
  by (auto simp: word_le_nat_alt)

lemma js_hyphen: "js ''-'' = [hyphen]"
  by (simp add: js_def hyphen_def)

lemma md_unfold: "md = [0x2E, 0x6D, 0x64]"
  by (simp add: md_def js_def)

lemma dot_not_inClass: "\<not> inClass 0x2E"
  by (simp add: inClass_def isLower_def isUpper_def isDigit_def hyphen_def underscore_def)

lemma replace_g_class: "replace_g re_not_in_class [] s = filter inClass s"
  by (induction s) (simp_all add: re_not_in_class_def)

lemma replace_g_spaces_keep:
  "\<forall>c\<in>set xs. \<not> isSpace c \<Longrightarrow> replace_g re_spaces r (xs @ ys) = xs @ replace_g re_spaces r ys"
proof (induction xs)
  case Nil
  then show ?case by simp
next
  case (Cons x xs)
  then show ?case by (simp add: re_spaces_def)
qed

lemma replace_g_spaces_run:
  "isSpace c \<Longrightarrow> replace_g re_spaces r (c # cs) = r @ replace_g re_spaces r (dropWhile isSpace cs)"
  by (simp add: re_spaces_def dropWhile_eq_drop)

lemma sameKind_space: "isSpace c \<Longrightarrow> sameKind c = isSpace"
  by (rule ext) (simp add: sameKind_def)

lemma sameKind_other: "\<not> isSpace c \<Longrightarrow> sameKind c = (\<lambda>d. \<not> isSpace d)"
  by (rule ext) (simp add: sameKind_def)

text \<open>The runs cut the title into pieces, each of one kind, none of which can be longer.\<close>

lemma concat_runs: "concat (runs t) = t"
  by (induction t rule: runs.induct) simp_all

lemma runs_homogeneous: "r \<in> set (runs t) \<Longrightarrow> r \<noteq> [] \<and> (\<forall>d\<in>set r. sameKind (hd r) d)"
proof (induction t rule: runs.induct)
  case 1
  then show ?case by simp
next
  case (2 c cs)
  show ?case
  proof (cases "r = c # takeWhile (sameKind c) cs")
    case True
    have "\<forall>d\<in>set (takeWhile (sameKind c) cs). sameKind c d"
      using set_takeWhileD by fastforce
    with True show ?thesis by (simp add: sameKind_def)
  next
    case False
    with 2 show ?thesis by simp
  qed
qed

lemma runs_maximal: "alternating (runs t)"
proof (induction t rule: runs.induct)
  case 1
  then show ?case by simp
next
  case (2 c cs)
  show ?case
  proof (cases "dropWhile (sameKind c) cs")
    case Nil
    then show ?thesis by (simp only: runs.simps alternating.simps)
  next
    case (Cons d ds)
    have "\<not> sameKind c (hd (dropWhile (sameKind c) cs))"
      by (rule hd_dropWhile) (simp add: Cons)
    then have "\<not> sameKind c d"
      by (simp add: Cons)
    with Cons 2 show ?thesis by simp
  qed
qed

text \<open>The first replacement of the source is step (a).\<close>

lemma replace_g_spaces_runs: "replace_g re_spaces (js ''-'') t = spec_step_a t"
proof (induction t rule: runs.induct)
  case 1
  then show ?case by (simp add: spec_step_a_def)
next
  case (2 c cs)
  show ?case
  proof (cases "isSpace c")
    case True
    have "replace_g re_spaces (js ''-'') (c # cs)
        = js ''-'' @ replace_g re_spaces (js ''-'') (dropWhile isSpace cs)"
      using True by (rule replace_g_spaces_run)
    with True 2 show ?thesis
      by (simp add: sameKind_space spec_step_a_def js_hyphen del: replace_g.simps)
  next
    case False
    let ?P = "\<lambda>d. \<not> isSpace d"
    have "replace_g re_spaces (js ''-'') (c # cs)
        = replace_g re_spaces (js ''-'') ((c # takeWhile ?P cs) @ dropWhile ?P cs)"
      by simp
    also have "\<dots> = (c # takeWhile ?P cs) @ replace_g re_spaces (js ''-'') (dropWhile ?P cs)"
    proof (rule replace_g_spaces_keep)
      show "\<forall>c\<in>set (c # takeWhile ?P cs). \<not> isSpace c"
        using False set_takeWhileD by fastforce
    qed
    finally show ?thesis
      using False 2 by (simp add: sameKind_other spec_step_a_def del: replace_g.simps)
  qed
qed

lemma endsWith_suffix: "endsWith s t = suffix t s"
proof
  assume "endsWith s t"
  then have "s = take (length s - length t) s @ t"
    by (metis append_take_drop_id endsWith_def)
  then show "suffix t s"
    by (rule suffixI)
next
  assume "suffix t s"
  then obtain zs where "s = zs @ t"
    by (auto simp: suffix_def)
  then show "endsWith s t"
    by (simp add: endsWith_def)
qed

lemma normalizePageName_spec: "normalizePageName t = spec_normalize t"
proof -
  have "inClass = (\<lambda>c. isLetter c \<or> isDigit c \<or> c = hyphen \<or> c = underscore)"
    by (rule ext) (auto simp: inClass_def isLetter_def)
  then show ?thesis
    by (simp add: normalizePageName_def spec_normalize_def spec_step_c_def spec_step_b_def
      replace_g_class replace_g_spaces_runs endsWith_suffix Let_def)
qed

text \<open>
  Claim C1. For every page title the resolver gives the file name that the three steps of the
  specification give: (a) every maximal run of white space replaced by one hyphen, (b) every
  remaining character that is no letter, digit, hyphen or underscore deleted, (c) the
  extension \<^verbatim>\<open>.md\<close> appended unless the result ends with it. The title
  \<^verbatim>\<open>Architettura del Sistema\<close> gives \<^verbatim>\<open>Architettura-del-Sistema.md\<close>, and
  \<^verbatim>\<open>API Documentation!!\<close> gives \<^verbatim>\<open>API-Documentation.md\<close>.
\<close>

theorem normalizePageName_algorithm:
  "normalizePageName t = spec_normalize t
   \<and> normalizePageName (js ''Architettura del Sistema'') = js ''Architettura-del-Sistema.md''
   \<and> normalizePageName (js ''API Documentation!!'') = js ''API-Documentation.md''"
proof -
  have "normalizePageName (js ''Architettura del Sistema'') = js ''Architettura-del-Sistema.md''"
    by code_simp
  moreover have "normalizePageName (js ''API Documentation!!'') = js ''API-Documentation.md''"
    by code_simp
  ultimately show ?thesis
    by (simp add: normalizePageName_spec)
qed

text \<open>
  The result of the two replacements holds no full stop, so it never ends with the extension:
  the test of step (c) always fails and the extension is always appended.
\<close>

lemma not_endsWith_md: "\<not> endsWith (filter inClass s) md"
proof
  assume "endsWith (filter inClass s) md"
  then have "suffix md (filter inClass s)"
    by (simp add: endsWith_suffix)
  then have "set md \<subseteq> set (filter inClass s)"
    by (rule set_mono_suffix)
  then have "inClass 0x2E"
    by (auto simp: md_unfold)
  then show False
    by (simp add: dot_not_inClass)
qed

lemma normalizePageName_append_md:
  "normalizePageName t = filter inClass (replace_g re_spaces (js ''-'') t) @ md"
  by (simp add: normalizePageName_def replace_g_class not_endsWith_md)

lemma replace_g_spaces_id: "\<forall>c\<in>set s. \<not> isSpace c \<Longrightarrow> replace_g re_spaces r s = s"
  using replace_g_spaces_keep [of s r "[]"] by simp

lemma md_no_space: "\<forall>c\<in>set md. \<not> isSpace c"
  by (simp add: md_unfold isSpace_def)

lemma filter_inClass_md: "filter inClass md = js ''md''"
  by (simp add: md_unfold js_def inClass_def isLower_def isUpper_def isDigit_def hyphen_def
      underscore_def)

lemma normalizePageName_twice:
  "normalizePageName (normalizePageName t)
     = filter inClass (replace_g re_spaces (js ''-'') t) @ js ''md'' @ md"
proof -
  let ?n = "filter inClass (replace_g re_spaces (js ''-'') t)"
  have "\<forall>c\<in>set (?n @ md). \<not> isSpace c"
    using md_no_space space_not_inClass by auto
  then have "replace_g re_spaces (js ''-'') (?n @ md) = ?n @ md"
    by (rule replace_g_spaces_id)
  then have "normalizePageName (?n @ md) = ?n @ js ''md'' @ md"
    by (simp add: normalizePageName_append_md filter_inClass_md)
  then show ?thesis
    by (simp add: normalizePageName_append_md)
qed

text \<open>No file name is a fixed point: normalizing it again puts \<^verbatim>\<open>md\<close> before the extension.\<close>

lemma normalizePageName_not_idempotent:
  "normalizePageName (normalizePageName t) \<noteq> normalizePageName t"
proof
  assume "normalizePageName (normalizePageName t) = normalizePageName t"
  then have "length (normalizePageName (normalizePageName t)) = length (normalizePageName t)"
    by simp
  then show False
    by (simp add: normalizePageName_twice) (simp add: normalizePageName_append_md js_def)
qed

text \<open>
  Claim C2. Normalizing is idempotent: normalizing the file name that normalizing a title has
  given yields that file name again. The source does not do so: the title \<^verbatim>\<open>Home\<close> gives
  \<^verbatim>\<open>Home.md\<close>, and \<^verbatim>\<open>Home.md\<close> gives \<^verbatim>\<open>Homemd.md\<close>, since the full stop is
  deleted before the test for the extension.
\<close>

theorem normalizePageName_Home_twice:
  "normalizePageName (js ''Home'') = js ''Home.md''
   \<and> normalizePageName (normalizePageName (js ''Home'')) = js ''Homemd.md''"
  by code_simp

text \<open>
  Claim C9, as stated: every string made of white space and characters outside the class
  normalizes to the extension alone. A single space is such a string, and gives \<^verbatim>\<open>-.md\<close>.
\<close>

theorem normalizePageName_space_counterexample:
  "isSpace 0x20 \<and> \<not> inClass 0x20 \<and> normalizePageName [0x20] = js ''-.md''
   \<and> normalizePageName [0x20] \<noteq> md"
  by code_simp

lemma hyphen_in_replace_g_spaces:
  "c \<in> set t \<Longrightarrow> isSpace c \<Longrightarrow> hyphen \<in> set (replace_g re_spaces (js ''-'') t)"
proof (induction t rule: runs.induct)
  case 1
  then show ?case by simp
next
  case (2 d ds)
  show ?case
  proof (cases "isSpace d")
    case True
    then show ?thesis
      by (simp add: replace_g_spaces_run js_hyphen del: replace_g.simps)
  next
    case False
    let ?P = "\<lambda>d. \<not> isSpace d"
    have keep: "replace_g re_spaces (js ''-'') ((d # takeWhile ?P ds) @ dropWhile ?P ds)
        = (d # takeWhile ?P ds) @ replace_g re_spaces (js ''-'') (dropWhile ?P ds)"
    proof (rule replace_g_spaces_keep)
      show "\<forall>c\<in>set (d # takeWhile ?P ds). \<not> isSpace c"
        using False set_takeWhileD by fastforce
    qed
    have "c \<in> set (takeWhile ?P ds) \<or> c \<in> set (dropWhile ?P ds)"
      using 2(2,3) False by (metis Un_iff set_ConsD set_append takeWhile_dropWhile_id)
    moreover have "c \<notin> set (takeWhile ?P ds)"
      using 2(3) set_takeWhileD by fastforce
    ultimately have "c \<in> set (dropWhile (sameKind d) ds)"
      using False by (simp add: sameKind_other)
    then have "hyphen \<in> set (replace_g re_spaces (js ''-'') (dropWhile ?P ds))"
      using 2(1,3) False by (simp add: sameKind_other)
    then have "hyphen \<in> set (replace_g re_spaces (js ''-'') ((d # takeWhile ?P ds) @ dropWhile ?P ds))"
      by (simp only: keep set_append Un_iff simp_thms)
    then show ?thesis by simp
  qed
qed

text \<open>
  Claim C9, amended. The resolver is a total function without error conditions; it gives the
  extension \<^verbatim>\<open>.md\<close> alone for the empty string and for every string made only of
  characters that are neither white space nor in the class, and for no other string (a run
  of white space leaves a hyphen).
\<close>

theorem normalizePageName_only_extension:
  "normalizePageName [] = md
   \<and> (normalizePageName t = md \<longleftrightarrow> (\<forall>c\<in>set t. \<not> isSpace c \<and> \<not> inClass c))"
proof -
  have empty: "normalizePageName [] = md"
    by (simp add: normalizePageName_append_md)
  have "normalizePageName t = md" if "\<forall>c\<in>set t. \<not> isSpace c \<and> \<not> inClass c"
  proof -
    from that have "replace_g re_spaces (js ''-'') t = t"
      by (intro replace_g_spaces_id) simp
    moreover from that have "filter inClass t = []"
      by (simp add: filter_empty_conv)
    ultimately show ?thesis
      by (simp add: normalizePageName_append_md)
  qed
  moreover have "\<not> isSpace c \<and> \<not> inClass c" if eq: "normalizePageName t = md" and c: "c \<in> set t" for c
  proof -
    from eq have none: "filter inClass (replace_g re_spaces (js ''-'') t) = []"
      by (simp add: normalizePageName_append_md)
    have "\<not> isSpace c"
    proof
      assume "isSpace c"
      with c have "hyphen \<in> set (replace_g re_spaces (js ''-'') t)"
        by (rule hyphen_in_replace_g_spaces)
      then have "hyphen \<in> set (filter inClass (replace_g re_spaces (js ''-'') t))"
        by (simp add: inClass_def)
      with none show False by simp
    qed
    moreover have "\<not> inClass c"
    proof
      assume cls: "inClass c"
      have "\<forall>d\<in>set t. \<not> isSpace d"
      proof
        fix d assume d: "d \<in> set t"
        show "\<not> isSpace d"
        proof
          assume "isSpace d"
          with d have "hyphen \<in> set (replace_g re_spaces (js ''-'') t)"
            by (rule hyphen_in_replace_g_spaces)
          then have "hyphen \<in> set (filter inClass (replace_g re_spaces (js ''-'') t))"
            by (simp add: inClass_def)
          with none show False by simp
        qed
      qed
      then have "replace_g re_spaces (js ''-'') t = t"
        by (rule replace_g_spaces_id)
      with none have "filter inClass t = []" by simp
      with c cls show False by (simp add: filter_empty_conv)
    qed
    ultimately show ?thesis by simp
  qed
  ultimately show ?thesis
    using empty by blast
qed

theorem normalizePageName_only_extension_witness:
  "list_all (\<lambda>c. \<not> isSpace c \<and> \<not> inClass c) (js ''!?'') \<and> normalizePageName (js ''!?'') = md"
proof -
  have h: "\<forall>c\<in>set (js ''!?''). \<not> isSpace c \<and> \<not> inClass c"
    by (simp add: js_def isSpace_def inClass_def isLower_def isUpper_def isDigit_def hyphen_def
        underscore_def)
  with normalizePageName_only_extension [of "js ''!?''"] show ?thesis
    by (simp add: list_all_iff)
qed

section \<open>The frame of the operations\<close>

lemma path_join_wiki: "path_join a (js ''wiki-'') \<noteq> []"
  by (simp add: path_join_def js_def)

lemma tmp_dir_truthy: "mkdtemp_result env = Inr random \<Longrightarrow> tmp_dir env \<noteq> []"
  by (simp add: tmp_dir_def path_join_wiki)

lemma update_update_same: "AList.update k v (AList.update k u al) = AList.update k v al"
  by (induction al) auto

lemma map_of_update_same: "map_of (AList.update k v al) k = Some v"
  by (simp add: update_conv')

lemma cloneWiki_ok:
  assumes "mkdtemp_result env = Inr random" "clone_fail env = None"
  shows "cloneWiki env config w = (Inr (tmp_dir env), cloned env config w)"
  using assms
  by (simp add: cloneWiki_def bind_def fs_mkdtemp_def try_catch_def git_clone_def return_def
      emit_def Let_def tmp_dir_def cloned_def update_update_same)

text \<open>\<^const>\<open>cleanup\<close> never throws: a failed removal ends as a warning on the console.\<close>

lemma cleanup_result:
  "cleanup env dir w =
     (Inr (),
      case rm_fail env of
        None \<Rightarrow> (emit (Rm dir) w)\<lparr>disk := AList.delete dir (disk w)\<rparr>
      | Some e \<Rightarrow> emit (ConsoleError (js ''Warning: Failed to cleanup '' @ dir @ js '':'') e)
                   (emit (Rm dir) w))"
  by (simp add: cleanup_def try_catch_def fs_rm_def console_error_def emit_def Let_def
      split: option.splits)

text \<open>
  Once the working copy stands, an operation ends as its body does, and the world it leaves
  is the one \<^const>\<open>cleanup\<close> leaves behind the body.
\<close>

lemma with_clone_ok:
  assumes "mkdtemp_result env = Inr random" "clone_fail env = None"
  shows "with_clone env config body w =
           (fst (body (tmp_dir env) (cloned env config w)),
            snd (cleanup env (tmp_dir env) (snd (body (tmp_dir env) (cloned env config w)))))"
  using assms tmp_dir_truthy [OF assms(1)]
  by (simp add: with_clone_def cloneWiki_ok try_finally_def cleanup_result case_prod_beta)

lemma with_clone_outcome:
  assumes "mkdtemp_result env = Inr random" "clone_fail env = None"
  shows "fst (with_clone env config body w) = fst (body (tmp_dir env) (cloned env config w))"
  by (simp add: with_clone_ok [OF assms])

lemma with_clone_remote:
  assumes "mkdtemp_result env = Inr random" "clone_fail env = None"
  shows "remote (snd (with_clone env config body w))
           = remote (snd (body (tmp_dir env) (cloned env config w)))"
  by (simp add: with_clone_ok [OF assms] cleanup_result emit_def split: option.splits)

lemma with_clone_trace:
  assumes "mkdtemp_result env = Inr random" "clone_fail env = None"
  shows "set (trace (snd (body (tmp_dir env) (cloned env config w))))
           \<subseteq> set (trace (snd (with_clone env config body w)))"
  by (auto simp: with_clone_ok [OF assms] cleanup_result emit_def split: option.splits)

lemma with_clone_last_call:
  assumes "mkdtemp_result env = Inr random" "clone_fail env = None"
  shows "last_call (snd (with_clone env config body w)) = Some (Rm (tmp_dir env))"
  by (simp add: with_clone_ok [OF assms] cleanup_result last_call_def emit_def
      split: option.splits)

lemma disk_cloned:
  "map_of (disk (cloned env config w)) (tmp_dir env)
     = Some \<lparr>worktree = remote w, staged = remote w, committed = remote w\<rparr>"
  by (simp add: cloned_def map_of_update_same)

lemma remote_cloned: "remote (cloned env config w) = remote w"
  by (simp add: cloned_def)

lemmas prim_defs = bind_def return_def throw_def try_catch_def fs_access_def fs_readFile_def
  fs_writeFile_def fs_unlink_def fs_readdir_def fs_stat_size_def git_add_def git_commit_def
  git_push_def emit_def Let_def

subsection \<open>When the working copy cannot be had\<close>

lemma with_clone_mkdtemp_fails:
  assumes "mkdtemp_result env = Inl e"
  shows "with_clone env config body w
           = (Inl e, emit (Mkdtemp (path_join (os_tmpdir env) (js ''wiki-''))) w)"
  using assms
  by (simp add: with_clone_def cloneWiki_def bind_def fs_mkdtemp_def try_finally_def throw_def
      return_def Let_def)

lemma cloneWiki_clone_fails:
  assumes "mkdtemp_result env = Inr random" "clone_fail env = Some e"
  shows "cloneWiki env config w
           = (Inl (case rm_fail env of
                     None \<Rightarrow> Error (js ''Failed to clone wiki: '' @ error_text e)
                   | Some e' \<Rightarrow> e'),
              (case rm_fail env of
                 None \<Rightarrow> w\<lparr>disk := AList.delete (tmp_dir env) (disk w)\<rparr>
               | Some e' \<Rightarrow> w\<lparr>disk := AList.update (tmp_dir env) empty_copy (disk w)\<rparr>)
              \<lparr>trace := trace w @ [Mkdtemp (path_join (os_tmpdir env) (js ''wiki-'')),
                  Clone (getWikiUrl (owner config) (repo config) (token config)) (tmp_dir env),
                  Rm (tmp_dir env)]\<rparr>)"
  using assms
  by (simp add: cloneWiki_def bind_def fs_mkdtemp_def try_catch_def git_clone_def fs_rm_def
      throw_def return_def emit_def Let_def tmp_dir_def delete_update_same
      split: option.splits)

lemma with_clone_clone_fails:
  assumes "mkdtemp_result env = Inr random" "clone_fail env = Some e"
  shows "fst (with_clone env config body w)
           = Inl (case rm_fail env of
                    None \<Rightarrow> Error (js ''Failed to clone wiki: '' @ error_text e)
                  | Some e' \<Rightarrow> e')"
    and "snd (with_clone env config body w) = snd (cloneWiki env config w)"
  by (simp_all add: cloneWiki_clone_fails [OF assms] with_clone_def try_finally_def throw_def
      return_def)

lemma with_clone_failure_sources:
  assumes "clone_failures env \<noteq> []" "fst (with_clone env config body w) = Inl e"
  shows "e \<in> set (clone_failures env)"
proof (cases "mkdtemp_result env")
  case (Inl e')
  with assms(2) show ?thesis
    by (simp add: with_clone_mkdtemp_fails clone_failures_def)
next
  case (Inr random)
  with assms(1) obtain e' where e': "clone_fail env = Some e'"
    by (auto simp: clone_failures_def split: option.splits)
  show ?thesis
    using Inr e' assms(2)
    by (simp add: with_clone_clone_fails [OF Inr e'] clone_failures_def of_option_def
        split: option.splits)
qed

lemma clone_failures_empty:
  "clone_failures env = [] \<Longrightarrow> \<exists>random. mkdtemp_result env = Inr random \<and> clone_fail env = None"
  by (auto simp: clone_failures_def split: sum.splits option.splits)

text \<open>
  With a removal that works, a failed clone leaves no temporary directory, is tried once and
  throws the error that wraps the message of the client.
\<close>

lemma clone_fails_rm_works:
  assumes "mkdtemp_result env = Inr random" "clone_fail env = Some e" "rm_fail env = None"
  shows "fst (with_clone env config body w)
           = Inl (Error (js ''Failed to clone wiki: '' @ error_text e))"
    and "map_of (disk (snd (with_clone env config body w))) (tmp_dir env) = None"
    and "filter is_clone (trace (snd (with_clone env config body w)))
           = filter is_clone (trace w)
             @ [Clone (getWikiUrl (owner config) (repo config) (token config)) (tmp_dir env)]"
    and "removals (snd (with_clone env config body w)) = removals w @ [Rm (tmp_dir env)]"
  using assms(3)
  by (simp_all add: with_clone_clone_fails [OF assms(1,2)] cloneWiki_clone_fails [OF assms(1,2)]
      delete_conv' removals_def)

section \<open>Cleanup\<close>

lemma quiet_return: "quiet (return x)"
  by (simp add: quiet_def return_def)

lemma quiet_throw: "quiet (throw e)"
  by (simp add: quiet_def throw_def)

lemma quiet_bind: "quiet m \<Longrightarrow> (\<And>x. quiet (f x)) \<Longrightarrow> quiet (bind m f)"
  by (auto simp: quiet_def bind_def split: prod.splits sum.splits) (metis snd_conv)+

lemma quiet_try_catch: "quiet m \<Longrightarrow> (\<And>e. quiet (h e)) \<Longrightarrow> quiet (try_catch m h)"
  by (auto simp: quiet_def try_catch_def split: prod.splits sum.splits) (metis snd_conv)+

lemma quiet_fs_access: "quiet (fs_access env dir file)"
  by (simp add: quiet_def fs_access_def removals_def emit_def Let_def split: option.splits)

lemma quiet_fs_readFile: "quiet (fs_readFile env dir file)"
  by (simp add: quiet_def fs_readFile_def removals_def emit_def Let_def split: option.splits)

lemma quiet_fs_writeFile: "quiet (fs_writeFile env dir file data)"
  by (simp add: quiet_def fs_writeFile_def removals_def emit_def Let_def split: option.splits)

lemma quiet_fs_unlink: "quiet (fs_unlink env dir file)"
  by (simp add: quiet_def fs_unlink_def removals_def emit_def Let_def split: option.splits)

lemma quiet_fs_readdir: "quiet (fs_readdir env dir)"
  by (simp add: quiet_def fs_readdir_def removals_def emit_def Let_def split: option.splits)

lemma quiet_fs_stat_size: "quiet (fs_stat_size env dir file)"
  by (simp add: quiet_def fs_stat_size_def removals_def emit_def Let_def split: option.splits)

lemma quiet_git_add: "quiet (git_add env dir file)"
  by (simp add: quiet_def git_add_def removals_def emit_def Let_def split: option.splits)

lemma quiet_git_commit: "quiet (git_commit env dir msg)"
  by (simp add: quiet_def git_commit_def removals_def emit_def Let_def split: option.splits)

lemma quiet_git_push: "quiet (git_push env dir rem branch)"
  by (simp add: quiet_def git_push_def removals_def emit_def Let_def split: option.splits)

lemma quiet_stat_files: "quiet (stat_files env dir files acc)"
  by (induction files arbitrary: acc) (simp_all add: quiet_return quiet_bind quiet_fs_stat_size)

lemmas quiet_intros = quiet_return quiet_throw quiet_bind quiet_try_catch quiet_fs_access
  quiet_fs_readFile quiet_fs_writeFile quiet_fs_unlink quiet_fs_readdir quiet_fs_stat_size
  quiet_git_add quiet_git_commit quiet_git_push quiet_stat_files

text \<open>Only the removal itself looks at how the removal ends.\<close>

lemma tmp_dir_rm_fail: "tmp_dir (env\<lparr>rm_fail := x\<rparr>) = tmp_dir env"
  by (simp add: tmp_dir_def split: sum.splits)

lemma cloned_rm_fail: "cloned (env\<lparr>rm_fail := x\<rparr>) = cloned env"
  by (rule ext)+ (simp add: cloned_def tmp_dir_rm_fail)

lemma fs_access_rm_fail: "fs_access (env\<lparr>rm_fail := x\<rparr>) = fs_access env"
  by (rule ext)+ (simp add: fs_access_def Let_def split: option.splits)

lemma fs_readFile_rm_fail: "fs_readFile (env\<lparr>rm_fail := x\<rparr>) = fs_readFile env"
  by (rule ext)+ (simp add: fs_readFile_def Let_def split: option.splits)

lemma fs_writeFile_rm_fail: "fs_writeFile (env\<lparr>rm_fail := x\<rparr>) = fs_writeFile env"
  by (rule ext)+ (simp add: fs_writeFile_def Let_def split: option.splits)

lemma fs_unlink_rm_fail: "fs_unlink (env\<lparr>rm_fail := x\<rparr>) = fs_unlink env"
  by (rule ext)+ (simp add: fs_unlink_def Let_def split: option.splits)

lemma fs_readdir_rm_fail: "fs_readdir (env\<lparr>rm_fail := x\<rparr>) = fs_readdir env"
  by (rule ext)+ (simp add: fs_readdir_def Let_def split: option.splits)

lemma fs_stat_size_rm_fail: "fs_stat_size (env\<lparr>rm_fail := x\<rparr>) = fs_stat_size env"
  by (rule ext)+ (simp add: fs_stat_size_def Let_def split: option.splits)

lemma git_add_rm_fail: "git_add (env\<lparr>rm_fail := x\<rparr>) = git_add env"
  by (rule ext)+ (simp add: git_add_def Let_def split: option.splits)

lemma git_commit_rm_fail: "git_commit (env\<lparr>rm_fail := x\<rparr>) = git_commit env"
  by (rule ext)+ (simp add: git_commit_def Let_def split: option.splits)

lemma git_push_rm_fail: "git_push (env\<lparr>rm_fail := x\<rparr>) = git_push env"
  by (rule ext)+ (simp add: git_push_def Let_def split: option.splits)

lemma stat_files_rm_fail:
  "stat_files (env\<lparr>rm_fail := x\<rparr>) dir files acc = stat_files env dir files acc"
  by (induction files arbitrary: acc) (simp_all add: fs_stat_size_rm_fail)

lemmas rm_fail_simps = fs_access_rm_fail fs_readFile_rm_fail fs_writeFile_rm_fail
  fs_unlink_rm_fail fs_readdir_rm_fail fs_stat_size_rm_fail git_add_rm_fail git_commit_rm_fail
  git_push_rm_fail stat_files_rm_fail

lemma removals_cloned: "removals (cloned env config w) = removals w"
  by (simp add: removals_def cloned_def)

lemma with_clone_removals:
  assumes "mkdtemp_result env = Inr random" "clone_fail env = None" "quiet (body (tmp_dir env))"
  shows "removals (snd (with_clone env config body w)) = removals w @ [Rm (tmp_dir env)]"
proof -
  have "removals (snd (body (tmp_dir env) (cloned env config w))) = removals w"
    using assms(3) by (simp add: quiet_def removals_cloned)
  then show ?thesis
    by (simp add: with_clone_ok [OF assms(1,2)] cleanup_result removals_def emit_def
        split: option.splits)
qed

lemma with_clone_cleans_up_once:
  assumes ok: "mkdtemp_result env = Inr random" "clone_fail env = None"
    and q: "quiet (body env (tmp_dir env))"
    and same: "body (env\<lparr>rm_fail := x\<rparr>) = body env"
  shows "cleans_up_once (\<lambda>env. with_clone env config (body env)) env x w"
proof -
  have ok': "mkdtemp_result (env\<lparr>rm_fail := x\<rparr>) = Inr random"
    "clone_fail (env\<lparr>rm_fail := x\<rparr>) = None"
    using ok by simp_all
  have r: "removals (snd (with_clone env config (body env) w)) = removals w @ [Rm (tmp_dir env)]"
    using ok q by (rule with_clone_removals)
  show ?thesis
    unfolding cleans_up_once_def
    by (simp add: r with_clone_last_call [OF ok]
        with_clone_outcome [OF ok] with_clone_outcome [OF ok'] with_clone_remote [OF ok]
        with_clone_remote [OF ok'] same tmp_dir_rm_fail cloned_rm_fail)
qed

lemma write_cleans_up_once:
  assumes "mkdtemp_result env = Inr random" "clone_fail env = None"
  shows "cleans_up_once (\<lambda>env. writeWikiPage env args) env x w"
  unfolding writeWikiPage_def Let_def
  by (rule with_clone_cleans_up_once [OF assms]) (intro quiet_intros, simp only: rm_fail_simps)

lemma read_cleans_up_once:
  assumes "mkdtemp_result env = Inr random" "clone_fail env = None"
  shows "cleans_up_once (\<lambda>env. readWikiPage env args) env x w"
  unfolding readWikiPage_def Let_def
  by (rule with_clone_cleans_up_once [OF assms]) (intro quiet_intros, simp only: rm_fail_simps)

lemma append_cleans_up_once:
  assumes "mkdtemp_result env = Inr random" "clone_fail env = None"
  shows "cleans_up_once (\<lambda>env. appendToWikiPage env args) env x w"
  unfolding appendToWikiPage_def Let_def
  by (rule with_clone_cleans_up_once [OF assms]) (intro quiet_intros, simp only: rm_fail_simps)

lemma list_cleans_up_once:
  assumes "mkdtemp_result env = Inr random" "clone_fail env = None"
  shows "cleans_up_once (\<lambda>env. listWikiPages env args) env x w"
  unfolding listWikiPages_def Let_def
  by (rule with_clone_cleans_up_once [OF assms])
    (intro quiet_intros, simp add: rm_fail_simps)

lemma delete_cleans_up_once:
  assumes "mkdtemp_result env = Inr random" "clone_fail env = None"
  shows "cleans_up_once (\<lambda>env. deleteWikiPage env args) env x w"
  unfolding deleteWikiPage_def Let_def
  by (rule with_clone_cleans_up_once [OF assms]) (intro quiet_intros, simp only: rm_fail_simps)

text \<open>
  Claim C4. In each of the five operations, in every execution in which the working copy has
  been acquired, whatever the later calls do (the file operation, staging, the commit or the
  push may fail), the removal of the temporary directory is attempted exactly once, as the
  last call before the operation returns; and whether that removal fails changes neither
  what the operation returns or throws nor the remote store.
\<close>

theorem cleanup_exactly_once:
  assumes "mkdtemp_result env = Inr random" "clone_fail env = None"
  shows "cleans_up_once (\<lambda>env. writeWikiPage env args) env x w
       \<and> cleans_up_once (\<lambda>env. readWikiPage env args) env x w
       \<and> cleans_up_once (\<lambda>env. appendToWikiPage env args) env x w
       \<and> cleans_up_once (\<lambda>env. listWikiPages env config) env x w
       \<and> cleans_up_once (\<lambda>env. deleteWikiPage env dargs) env x w"
  using write_cleans_up_once [OF assms] read_cleans_up_once [OF assms]
    append_cleans_up_once [OF assms] list_cleans_up_once [OF assms]
    delete_cleans_up_once [OF assms]
  by simp

theorem cleanup_exactly_once_witness:
  "mkdtemp_result env_rejected = Inr (js ''Ab12Cd'') \<and> clone_fail env_rejected = None
   \<and> fst (writeWikiPage env_rejected home_args store0) = Inl (Error (js ''rejected''))
   \<and> removals (snd (writeWikiPage env_rejected home_args store0)) = [Rm (js ''/tmp/wiki-Ab12Cd'')]
   \<and> cleans_up_once (\<lambda>env. writeWikiPage env home_args) env_rejected None store0
   \<and> cleans_up_once (\<lambda>env. readWikiPage env home_args) env_rejected None store0
   \<and> cleans_up_once (\<lambda>env. appendToWikiPage env home_args) env_rejected None store0
   \<and> cleans_up_once (\<lambda>env. listWikiPages env wiki) env_rejected None store0
   \<and> cleans_up_once (\<lambda>env. deleteWikiPage env faq_delete_args) env_rejected None store0"
proof -
  have ok: "mkdtemp_result env_rejected = Inr (js ''Ab12Cd'')" "clone_fail env_rejected = None"
    by (simp_all add: env_rejected_def env_ok_def)
  have "fst (writeWikiPage env_rejected home_args store0) = Inl (Error (js ''rejected''))"
    by code_simp
  moreover
  have "removals (snd (writeWikiPage env_rejected home_args store0)) = [Rm (js ''/tmp/wiki-Ab12Cd'')]"
    by code_simp
  ultimately show ?thesis
    using ok cleanup_exactly_once [OF ok, of home_args None store0 wiki faq_delete_args]
    by simp
qed

section \<open>What the operations do to the store\<close>

lemma push_failures_empty:
  "push_failures env file = [] \<longleftrightarrow>
     writeFile_fail env = None \<and> \<not> is_option file \<and> add_fail env = None
     \<and> commit_fail env = None \<and> push_fail env = None"
  by (simp add: push_failures_def of_option_def split: option.splits)

lemma write_ok:
  assumes "mkdtemp_result env = Inr random" "clone_fail env = None"
    "push_failures env (normalizePageName (pageName args)) = []"
  shows "fst (writeWikiPage env args w)
           = Inr \<lparr>success = True, page = normalizePageName (pageName args),
                 url = js ''https://github.com/'' @ owner args @ js ''/'' @ repo args
                   @ js ''/wiki/'' @ replace_first md [] (normalizePageName (pageName args))\<rparr>"
    and "remote (snd (writeWikiPage env args w))
           = AList.update (normalizePageName (pageName args)) (encode env (content args)) (remote w)"
  using assms(3) unfolding writeWikiPage_def
  by (simp_all add: with_clone_outcome [OF assms(1,2)] with_clone_remote [OF assms(1,2)]
      prim_defs disk_cloned remote_cloned map_of_update_same update_update_same
      push_failures_empty)

lemma append_ok:
  assumes "mkdtemp_result env = Inr random" "clone_fail env = None"
    "push_failures env (normalizePageName (pageName args)) = []"
  shows "fst (appendToWikiPage env args w)
           = Inr \<lparr>success = True, page = normalizePageName (pageName args)\<rparr>"
    and "remote (snd (appendToWikiPage env args w))
           = AList.update (normalizePageName (pageName args))
               (encode env
                 (case readFile_fail env of
                    Some e \<Rightarrow> content args
                  | None \<Rightarrow>
                     (case page_text env w (normalizePageName (pageName args)) of
                        None \<Rightarrow> content args
                      | Some c1 \<Rightarrow> if c1 = [] then content args
                                  else c1 @ separator @ content args)))
               (remote w)"
  using assms(3) unfolding appendToWikiPage_def page_text_def
  by (simp_all add: with_clone_outcome [OF assms(1,2)] with_clone_remote [OF assms(1,2)]
      prim_defs disk_cloned remote_cloned map_of_update_same update_update_same
      push_failures_empty split: option.splits)

lemma read_absent:
  assumes "mkdtemp_result env = Inr random" "clone_fail env = None"
    "map_of (remote w) (normalizePageName (pageName args)) = None"
  shows "fst (readWikiPage env args w) = Inl (not_found (normalizePageName (pageName args)))"
  using assms unfolding readWikiPage_def
  by (simp add: with_clone_outcome [OF assms(1,2)] prim_defs disk_cloned)

lemma delete_absent:
  assumes "mkdtemp_result env = Inr random" "clone_fail env = None"
    "map_of (remote w) (normalizePageName (pageName args)) = None"
  shows "fst (deleteWikiPage env args w) = Inl (not_found (normalizePageName (pageName args)))"
    and "remote (snd (deleteWikiPage env args w)) = remote w"
  using assms unfolding deleteWikiPage_def
  by (simp_all add: with_clone_outcome [OF assms(1,2)] with_clone_remote [OF assms(1,2)]
      prim_defs disk_cloned remote_cloned)

lemma read_present:
  assumes "mkdtemp_result env = Inr random" "clone_fail env = None"
    "access_fail env = None" "readFile_fail env = None"
    "map_of (remote w) (normalizePageName (pageName args)) = Some b"
  shows "fst (readWikiPage env args w)
           = Inr \<lparr>success = True, page = normalizePageName (pageName args),
                 content_read = decode env b\<rparr>"
  using assms unfolding readWikiPage_def
  by (simp add: with_clone_outcome [OF assms(1,2)] prim_defs disk_cloned)

text \<open>
  What \<^verbatim>\<open>writeWikiPage\<close> and \<^verbatim>\<open>appendToWikiPage\<close> throw, a call of the file system or
  of the client has thrown.
\<close>

lemma write_failure_sources:
  assumes "fst (writeWikiPage env args w) = Inl e"
  shows "e \<in> set (clone_failures env @ push_failures env (normalizePageName (pageName args)))"
proof (cases "clone_failures env = []")
  case False
  from assms have "e \<in> set (clone_failures env)"
    unfolding writeWikiPage_def Let_def by (rule with_clone_failure_sources [OF False])
  then show ?thesis by simp
next
  case True
  then obtain random where ok: "mkdtemp_result env = Inr random" "clone_fail env = None"
    using clone_failures_empty by blast
  from assms show ?thesis
    unfolding writeWikiPage_def
    by (simp add: with_clone_outcome [OF ok] prim_defs disk_cloned map_of_update_same
        push_failures_def of_option_def split: option.splits if_splits)
qed

lemma append_failure_sources:
  assumes "fst (appendToWikiPage env args w) = Inl e"
  shows "e \<in> set (clone_failures env @ push_failures env (normalizePageName (pageName args)))"
proof (cases "clone_failures env = []")
  case False
  from assms have "e \<in> set (clone_failures env)"
    unfolding appendToWikiPage_def Let_def by (rule with_clone_failure_sources [OF False])
  then show ?thesis by simp
next
  case True
  then obtain random where ok: "mkdtemp_result env = Inr random" "clone_fail env = None"
    using clone_failures_empty by blast
  from assms show ?thesis
    unfolding appendToWikiPage_def
    by (simp add: with_clone_outcome [OF ok] prim_defs disk_cloned map_of_update_same
        push_failures_def of_option_def split: option.splits if_splits)
qed

lemma clone_failures_ok:
  "mkdtemp_result env = Inr random \<Longrightarrow> clone_fail env = None \<Longrightarrow> clone_failures env = []"
  by (simp add: clone_failures_def)

text \<open>
  Where the file name of the page does not begin with a hyphen and no call of the environment
  fails, appending content \<open>c2\<close> succeeds, whatever the remote store holds. The page then
  holds \<open>c1\<close>, two line feeds and \<open>c2\<close> when it held the non-empty text \<open>c1\<close> before, and
  exactly \<open>c2\<close>, with no separator before it, when it was absent or held no text. No other
  page changes.
\<close>

lemma append_content_plain_name:
  assumes "mkdtemp_result env = Inr random" "clone_fail env = None" "readFile_fail env = None"
    "push_failures env (normalizePageName (pageName args)) = []"
  shows "fst (appendToWikiPage env args w)
           = Inr \<lparr>success = True, page = normalizePageName (pageName args)\<rparr>
       \<and> (\<forall>c1. page_text env w (normalizePageName (pageName args)) = Some c1 \<and> c1 \<noteq> [] \<longrightarrow>
             map_of (remote (snd (appendToWikiPage env args w))) (normalizePageName (pageName args))
               = Some (encode env (c1 @ [0x0A, 0x0A] @ content args)))
       \<and> (page_text env w (normalizePageName (pageName args)) = None
            \<or> page_text env w (normalizePageName (pageName args)) = Some [] \<longrightarrow>
             map_of (remote (snd (appendToWikiPage env args w))) (normalizePageName (pageName args))
               = Some (encode env (content args)))
       \<and> (\<forall>other. other \<noteq> normalizePageName (pageName args) \<longrightarrow>
             map_of (remote (snd (appendToWikiPage env args w))) other
               = map_of (remote w) other)"
  using assms(3)
  by (auto simp: append_ok [OF assms(1,2,4)] update_conv' separator_def)

text \<open>A file of zero length holds no text, for a codec that reads no bytes as no text.\<close>

lemma page_text_zero_length:
  "decode env [] = [] \<Longrightarrow> map_of (remote w) file = Some [] \<Longrightarrow> page_text env w file = Some []"
  by (simp add: page_text_def)

lemma append_content_examples:
  "fst (appendToWikiPage env_ok home_args store0) = Inr \<lparr>success = True, page = js ''Home.md''\<rparr>
   \<and> page_text env_ok store0 (js ''Home.md'') = Some (js ''old'')
   \<and> map_of (remote (snd (appendToWikiPage env_ok home_args store0))) (js ''Home.md'')
       = Some (ascii_encode (js ''old'' @ [0x0A, 0x0A] @ js ''new''))
   \<and> fst (appendToWikiPage env_ok faq_args store0) = Inr \<lparr>success = True, page = js ''FAQ.md''\<rparr>
   \<and> page_text env_ok store0 (js ''FAQ.md'') = None
   \<and> map_of (remote (snd (appendToWikiPage env_ok faq_args store0))) (js ''FAQ.md'')
       = Some (ascii_encode (js ''# FAQ''))
   \<and> map_of (remote store0) (js ''Empty.md'') = Some []
   \<and> map_of (remote (snd (appendToWikiPage env_ok empty_page_args store0))) (js ''Empty.md'')
       = Some (ascii_encode (js ''first''))"
proof -
  have ok: "mkdtemp_result env_ok = Inr (js ''Ab12Cd'')" "clone_fail env_ok = None"
    "readFile_fail env_ok = None"
    by (simp_all add: env_ok_def)
  have home: "normalizePageName (pageName home_args) = js ''Home.md''"
    by code_simp
  have faq: "normalizePageName (pageName faq_args) = js ''FAQ.md''"
    by code_simp
  have empty: "normalizePageName (pageName empty_page_args) = js ''Empty.md''"
    by code_simp
  have plain: "push_failures env_ok (js ''Home.md'') = []" "push_failures env_ok (js ''FAQ.md'') = []"
    "push_failures env_ok (js ''Empty.md'') = []"
    by code_simp+
  have old: "page_text env_ok store0 (js ''Home.md'') = Some (js ''old'')"
    by code_simp
  have none: "page_text env_ok store0 (js ''FAQ.md'') = None"
    by code_simp
  have zero: "map_of (remote store0) (js ''Empty.md'') = Some []"
    by code_simp
  have "decode env_ok [] = []"
    by (simp add: env_ok_def ascii_decode_def)
  from this zero have no_text: "page_text env_ok store0 (js ''Empty.md'') = Some []"
    by (rule page_text_zero_length)
  have texts: "js ''old'' \<noteq> []" "content home_args = js ''new''" "content faq_args = js ''# FAQ''"
    "content empty_page_args = js ''first''" "encode env_ok = ascii_encode"
    by (simp_all add: js_def home_args_def faq_args_def empty_page_args_def env_ok_def)
  from append_content_plain_name [of env_ok "js ''Ab12Cd''" home_args store0]
    append_content_plain_name [of env_ok "js ''Ab12Cd''" faq_args store0]
    append_content_plain_name [of env_ok "js ''Ab12Cd''" empty_page_args store0]
  show ?thesis
    using zero ok plain by (simp add: home faq empty old none no_text texts)
qed

text \<open>
  Claim C3. For every remote store and every page, appending content \<open>c2\<close> succeeds, with
  the page then holding the old text, two line feeds and \<open>c2\<close>, or exactly \<open>c2\<close> when the
  page was absent or empty: appending to an absent page creates it. The source does not do
  so for the title \<^verbatim>\<open> x\<close>, in an environment in which no call fails: the title resolves
  to \<^verbatim>\<open>-x.md\<close>, the file is written, and \<^verbatim>\<open>git.add('-x.md')\<close> fails, the name being
  read as options. The operation throws and the page is not created.
\<close>

theorem append_fails_after_leading_space:
  "normalizePageName (pageName spaced_args) = js ''-x.md''
   \<and> map_of (remote store0) (js ''-x.md'') = None
   \<and> fst (appendToWikiPage env_ok spaced_args store0) = Inl (Error (js ''error: unknown switch''))
   \<and> map_of (remote (snd (appendToWikiPage env_ok spaced_args store0))) (js ''-x.md'') = None
   \<and> remote (snd (appendToWikiPage env_ok spaced_args store0)) = remote store0"
  by code_simp

text \<open>
  Claim C5. When the file a page title resolves to is absent from the remote store and the
  working copy has been acquired, reading the page and deleting the page each fail with the
  error \<^verbatim>\<open>Page <file> does not exist\<close>, and the delete leaves the store as it was.
  Writing and appending raise no such error: what they throw is what one of their calls has
  thrown (writing the file, staging, the commit, the push), and when none of these fails
  they succeed and create the page.
\<close>

theorem absent_page_outcomes:
  assumes "mkdtemp_result env = Inr random" "clone_fail env = None"
    and "map_of (remote w) (normalizePageName (pageName args)) = None"
    and "map_of (remote w) (normalizePageName (pageName dargs)) = None"
  shows "fst (readWikiPage env args w) = Inl (not_found (normalizePageName (pageName args)))
       \<and> fst (deleteWikiPage env dargs w) = Inl (not_found (normalizePageName (pageName dargs)))
       \<and> remote (snd (deleteWikiPage env dargs w)) = remote w
       \<and> (\<forall>e. fst (writeWikiPage env args w) = Inl e \<longrightarrow> e \<in> set (push_failures env (normalizePageName (pageName args))))
       \<and> (\<forall>e. fst (appendToWikiPage env args w) = Inl e \<longrightarrow> e \<in> set (push_failures env (normalizePageName (pageName args))))
       \<and> (push_failures env (normalizePageName (pageName args)) = [] \<longrightarrow>
            fst (writeWikiPage env args w)
              = Inr \<lparr>success = True, page = normalizePageName (pageName args),
                    url = js ''https://github.com/'' @ owner args @ js ''/'' @ repo args
                      @ js ''/wiki/'' @ replace_first md [] (normalizePageName (pageName args))\<rparr>
            \<and> map_of (remote (snd (writeWikiPage env args w))) (normalizePageName (pageName args))
                = Some (encode env (content args))
            \<and> fst (appendToWikiPage env args w)
                = Inr \<lparr>success = True, page = normalizePageName (pageName args)\<rparr>
            \<and> map_of (remote (snd (appendToWikiPage env args w))) (normalizePageName (pageName args))
                = Some (encode env (content args)))"
proof -
  have none: "clone_failures env = []"
    using assms(1,2) by (rule clone_failures_ok)
  have w: "\<forall>e. fst (writeWikiPage env args w) = Inl e \<longrightarrow> e \<in> set (push_failures env (normalizePageName (pageName args)))"
    using write_failure_sources [of env args w] none by simp
  have a: "\<forall>e. fst (appendToWikiPage env args w) = Inl e \<longrightarrow> e \<in> set (push_failures env (normalizePageName (pageName args)))"
    using append_failure_sources [of env args w] none by simp
  have created: "fst (writeWikiPage env args w)
              = Inr \<lparr>success = True, page = normalizePageName (pageName args),
                    url = js ''https://github.com/'' @ owner args @ js ''/'' @ repo args
                      @ js ''/wiki/'' @ replace_first md [] (normalizePageName (pageName args))\<rparr>
            \<and> map_of (remote (snd (writeWikiPage env args w))) (normalizePageName (pageName args))
                = Some (encode env (content args))
            \<and> fst (appendToWikiPage env args w)
                = Inr \<lparr>success = True, page = normalizePageName (pageName args)\<rparr>
            \<and> map_of (remote (snd (appendToWikiPage env args w))) (normalizePageName (pageName args))
                = Some (encode env (content args))"
    if "push_failures env (normalizePageName (pageName args)) = []"
    using assms(3)
    by (simp add: write_ok [OF assms(1,2) that] append_ok [OF assms(1,2) that] map_of_update_same
        page_text_def split: option.splits)
  show ?thesis
    using read_absent [OF assms(1,2,3)] delete_absent [OF assms(1,2,4)] w a created
    by blast
qed

theorem absent_page_outcomes_witness:
  "map_of (remote store0) (js ''FAQ.md'') = None
   \<and> fst (readWikiPage env_ok faq_args store0) = Inl (Error (js ''Page FAQ.md does not exist''))
   \<and> fst (deleteWikiPage env_ok faq_delete_args store0)
       = Inl (Error (js ''Page FAQ.md does not exist''))
   \<and> remote (snd (deleteWikiPage env_ok faq_delete_args store0)) = remote store0
   \<and> fst (writeWikiPage env_ok faq_args store0)
       = Inr \<lparr>success = True, page = js ''FAQ.md'', url = js ''https://github.com/octo/demo/wiki/FAQ''\<rparr>
   \<and> fst (appendToWikiPage env_ok faq_args store0) = Inr \<lparr>success = True, page = js ''FAQ.md''\<rparr>"
proof -
  have ok: "mkdtemp_result env_ok = Inr (js ''Ab12Cd'')" "clone_fail env_ok = None"
    by (simp_all add: env_ok_def)
  have faq: "normalizePageName (pageName faq_args) = js ''FAQ.md''"
    "normalizePageName (pageName faq_delete_args) = js ''FAQ.md''"
    by code_simp+
  have absent: "map_of (remote store0) (js ''FAQ.md'') = None"
    by code_simp
  have none: "push_failures env_ok (js ''FAQ.md'') = []"
    by code_simp
  have texts: "not_found (js ''FAQ.md'') = Error (js ''Page FAQ.md does not exist'')"
    "js ''https://github.com/'' @ owner faq_args @ js ''/'' @ repo faq_args
       @ js ''/wiki/'' @ replace_first md [] (js ''FAQ.md'') = js ''https://github.com/octo/demo/wiki/FAQ''"
    by code_simp+
  from absent_page_outcomes [of env_ok "js ''Ab12Cd''" store0 faq_args faq_delete_args]
  show ?thesis
    using ok absent none by (simp add: faq texts)
qed

text \<open>
  Where the file name of the page does not begin with a hyphen: writing content \<open>c\<close> to the
  page and then reading the page from the store the write has left returns exactly \<open>c\<close>,
  for every text \<open>c\<close> that the codec gives back unchanged (as \<^verbatim>\<open>'utf-8'\<close> does for any
  text), the empty text and markdown included; here none of the calls the two operations
  need fails.
\<close>

lemma write_then_read_plain_name:
  assumes "mkdtemp_result env = Inr random" "clone_fail env = None"
    "push_failures env (normalizePageName (pageName args)) = []"
    and "mkdtemp_result env' = Inr random'" "clone_fail env' = None" "access_fail env' = None"
    "readFile_fail env' = None"
    and "pageName rargs = pageName args"
    and "decode env' (encode env (content args)) = content args"
  shows "fst (writeWikiPage env args w)
           = Inr \<lparr>success = True, page = normalizePageName (pageName args),
                 url = js ''https://github.com/'' @ owner args @ js ''/'' @ repo args
                   @ js ''/wiki/'' @ replace_first md [] (normalizePageName (pageName args))\<rparr>
       \<and> fst (readWikiPage env' rargs (snd (writeWikiPage env args w)))
           = Inr \<lparr>success = True, page = normalizePageName (pageName args),
                 content_read = content args\<rparr>"
proof -
  have "map_of (remote (snd (writeWikiPage env args w))) (normalizePageName (pageName rargs))
          = Some (encode env (content args))"
    by (simp add: write_ok(2) [OF assms(1-3)] assms(8) map_of_update_same)
  from read_present [OF assms(4-7) this] show ?thesis
    by (simp add: write_ok(1) [OF assms(1-3)] assms(8,9))
qed

lemma write_then_read_examples:
  "ascii_decode (ascii_encode (content markdown_args)) = content markdown_args
   \<and> fst (writeWikiPage env_ok markdown_args store0)
       = Inr \<lparr>success = True, page = js ''API-Documentation.md'',
             url = js ''https://github.com/octo/demo/wiki/API-Documentation''\<rparr>
   \<and> fst (readWikiPage env_ok markdown_args (snd (writeWikiPage env_ok markdown_args store0)))
       = Inr \<lparr>success = True, page = js ''API-Documentation.md'',
             content_read = js ''# *API* [link](x) `code` | a_b <!-- -->''\<rparr>
   \<and> fst (readWikiPage env_ok home_args (snd (writeWikiPage env_ok empty_args store0)))
       = Inr \<lparr>success = True, page = js ''Home.md'', content_read = []\<rparr>"
proof -
  have ok: "mkdtemp_result env_ok = Inr (js ''Ab12Cd'')" "clone_fail env_ok = None"
    by (simp_all add: env_ok_def)
  have ok': "mkdtemp_result env_ok = Inr (js ''Ab12Cd'')" "clone_fail env_ok = None"
    "access_fail env_ok = None" "readFile_fail env_ok = None"
    by (simp_all add: env_ok_def)
  have same: "pageName markdown_args = pageName markdown_args" "pageName home_args = pageName empty_args"
    by (simp_all add: home_args_def empty_args_def)
  have codec: "encode env_ok = ascii_encode" "decode env_ok = ascii_decode"
    by (simp_all add: env_ok_def)
  have roundtrip: "ascii_decode (ascii_encode (content markdown_args)) = content markdown_args"
    "ascii_decode (ascii_encode (content empty_args)) = content empty_args"
    by code_simp+
  have names: "normalizePageName (pageName markdown_args) = js ''API-Documentation.md''"
    "normalizePageName (pageName empty_args) = js ''Home.md''"
    by code_simp+
  have plain: "push_failures env_ok (normalizePageName (pageName markdown_args)) = []"
    "push_failures env_ok (normalizePageName (pageName empty_args)) = []"
    by code_simp+
  have texts: "content markdown_args = js ''# *API* [link](x) `code` | a_b <!-- -->''"
    "content empty_args = []"
    "js ''https://github.com/'' @ owner markdown_args @ js ''/'' @ repo markdown_args
       @ js ''/wiki/'' @ replace_first md [] (js ''API-Documentation.md'')
       = js ''https://github.com/octo/demo/wiki/API-Documentation''"
    by code_simp+
  from write_then_read_plain_name [OF ok plain(1) ok' same(1), of store0]
    write_then_read_plain_name [OF ok plain(2) ok' same(2), of store0]
  show ?thesis
    using roundtrip by (simp add: codec names texts)
qed

text \<open>
  Claim C6. For every page and every text \<open>c\<close>, writing \<open>c\<close> to the page and then reading
  the page from the resulting store returns exactly \<open>c\<close>. The source does not do so for the
  title \<^verbatim>\<open> x\<close>, in an environment in which no call fails: the title resolves to
  \<^verbatim>\<open>-x.md\<close>, and \<^verbatim>\<open>git.add('-x.md')\<close> fails, the name being read as options. The
  write throws, the store is left without the page, and the read that follows throws
  \<^verbatim>\<open>Page -x.md does not exist\<close>.
\<close>

theorem write_then_read_fails_after_leading_space:
  "normalizePageName (pageName spaced_args) = js ''-x.md''
   \<and> fst (writeWikiPage env_ok spaced_args store0) = Inl (Error (js ''error: unknown switch''))
   \<and> remote (snd (writeWikiPage env_ok spaced_args store0)) = remote store0
   \<and> fst (readWikiPage env_ok spaced_args (snd (writeWikiPage env_ok spaced_args store0)))
       = Inl (Error (js ''Page -x.md does not exist''))"
  by code_simp

lemma append_writes:
  assumes "mkdtemp_result env = Inr random" "clone_fail env = None"
  shows "WriteFile (tmp_dir env) (normalizePageName (pageName args))
           \<in> set (trace (snd (appendToWikiPage env args w)))"
  unfolding appendToWikiPage_def Let_def
  by (rule subsetD [OF with_clone_trace [OF assms]])
    (simp add: prim_defs disk_cloned map_of_update_same split: option.splits)

lemma append_read_error:
  assumes "mkdtemp_result env = Inr random" "clone_fail env = None" "readFile_fail env = Some e"
  shows "fst (appendToWikiPage env args w)
           = fst (appendToWikiPage (env\<lparr>readFile_fail := None\<rparr>) args
                   (w\<lparr>remote := AList.delete (normalizePageName (pageName args)) (remote w)\<rparr>))"
proof -
  have ok: "mkdtemp_result (env\<lparr>readFile_fail := None\<rparr>) = Inr random"
    "clone_fail (env\<lparr>readFile_fail := None\<rparr>) = None"
    using assms by simp_all
  show ?thesis
    using assms unfolding appendToWikiPage_def
    by (simp add: with_clone_outcome [OF assms(1,2)] with_clone_outcome [OF ok]
        prim_defs disk_cloned map_of_update_same delete_conv' tmp_dir_def cloned_def
        split: option.splits)
qed

text \<open>
  Claim C10. In the append operation a failure to read the existing file, of any kind and not
  only the absence of the file, is treated as if the page were absent: the operation ends as
  it does on a store without the page, it goes on to write the file, what it can throw is
  only what the later calls throw, and when they do not fail it succeeds and the page holds
  the new content alone.
\<close>

theorem append_ignores_read_error:
  assumes "mkdtemp_result env = Inr random" "clone_fail env = None" "readFile_fail env = Some e"
  shows "fst (appendToWikiPage env args w)
           = fst (appendToWikiPage (env\<lparr>readFile_fail := None\<rparr>) args
                   (w\<lparr>remote := AList.delete (normalizePageName (pageName args)) (remote w)\<rparr>))
       \<and> WriteFile (tmp_dir env) (normalizePageName (pageName args))
           \<in> set (trace (snd (appendToWikiPage env args w)))
       \<and> (\<forall>e'. fst (appendToWikiPage env args w) = Inl e' \<longrightarrow> e' \<in> set (push_failures env (normalizePageName (pageName args))))
       \<and> (push_failures env (normalizePageName (pageName args)) = [] \<longrightarrow>
            fst (appendToWikiPage env args w)
              = Inr \<lparr>success = True, page = normalizePageName (pageName args)\<rparr>
            \<and> remote (snd (appendToWikiPage env args w))
                = AList.update (normalizePageName (pageName args)) (encode env (content args))
                    (remote w))"
proof -
  have none: "clone_failures env = []"
    using assms(1,2) by (rule clone_failures_ok)
  have thrown: "\<forall>e'. fst (appendToWikiPage env args w) = Inl e' \<longrightarrow> e' \<in> set (push_failures env (normalizePageName (pageName args)))"
    using append_failure_sources [of env args w] none by simp
  have succeeds: "fst (appendToWikiPage env args w)
              = Inr \<lparr>success = True, page = normalizePageName (pageName args)\<rparr>
            \<and> remote (snd (appendToWikiPage env args w))
                = AList.update (normalizePageName (pageName args)) (encode env (content args))
                    (remote w)"
    if "push_failures env (normalizePageName (pageName args)) = []"
    by (simp add: append_ok [OF assms(1,2) that] assms(3))
  show ?thesis
    using append_read_error [OF assms] append_writes [OF assms(1,2)] thrown succeeds
    by blast
qed

theorem append_ignores_read_error_witness:
  "readFile_fail env_unreadable = Some (Error (js ''EACCES''))
   \<and> page_text env_unreadable store0 (js ''Home.md'') = Some (js ''old'')
   \<and> fst (appendToWikiPage env_unreadable home_args store0)
       = Inr \<lparr>success = True, page = js ''Home.md''\<rparr>
   \<and> remote (snd (appendToWikiPage env_unreadable home_args store0))
       = AList.update (js ''Home.md'') (ascii_encode (js ''new'')) (remote store0)"
proof -
  have ok: "mkdtemp_result env_unreadable = Inr (js ''Ab12Cd'')" "clone_fail env_unreadable = None"
    "readFile_fail env_unreadable = Some (Error (js ''EACCES''))"
    by (simp_all add: env_unreadable_def env_ok_def)
  have home: "normalizePageName (pageName home_args) = js ''Home.md''"
    by code_simp
  have old: "page_text env_unreadable store0 (js ''Home.md'') = Some (js ''old'')"
    by code_simp
  have none: "push_failures env_unreadable (js ''Home.md'') = []"
    by code_simp
  have texts: "encode env_unreadable (content home_args) = ascii_encode (js ''new'')"
    by (simp add: env_unreadable_def env_ok_def home_args_def)
  note at_home = append_ignores_read_error [OF ok, of home_args store0, unfolded home texts]
  from at_home none
  have "fst (appendToWikiPage env_unreadable home_args store0)
          = Inr \<lparr>success = True, page = js ''Home.md''\<rparr>
      \<and> remote (snd (appendToWikiPage env_unreadable home_args store0))
          = AList.update (js ''Home.md'') (ascii_encode (js ''new'')) (remote store0)"
    by blast
  with ok(3) old show ?thesis
    by blast
qed

section \<open>Listing the pages\<close>

lemma stat_files_ok:
  assumes "map_of (disk w) dir = Some wc"
    and "\<forall>f\<in>set files. stat_fail env f = None \<and> map_of (worktree wc) f \<noteq> None"
  shows "fst (stat_files env dir files acc w) = Inr (acc @ map (page_info (worktree wc)) files)"
  using assms
proof (induction files arbitrary: acc w)
  case Nil
  then show ?case by (simp add: return_def)
next
  case (Cons f files)
  from Cons.prems obtain b where b: "map_of (worktree wc) f = Some b"
    by auto
  have step: "fs_stat_size env dir f w = (Inr (length b), emit (Stat dir f) w)"
    using Cons.prems b by (simp add: fs_stat_size_def emit_def Let_def)
  have "map_of (disk (emit (Stat dir f) w)) dir = Some wc"
    using Cons.prems(1) by (simp add: emit_def)
  from Cons.IH [OF this] Cons.prems(2) show ?case
    by (simp add: bind_def step page_info_def b)
qed

text \<open>
  With no call failing, the list holds one record for each file of the store whose name ends
  with the extension and none for another file, with the file name as path and the number of
  its bytes as size, sorted by name.
\<close>

lemma list_ok:
  assumes "mkdtemp_result env = Inr random" "clone_fail env = None" "readdir_fail env = None"
    and "\<forall>f. stat_fail env f = None"
  shows "fst (listWikiPages env config w)
           = Inr (array_sort (\<lambda>a b. localeCompare env (name a) (name b))
                   (map (page_info (remote w))
                     (filter (\<lambda>f. endsWith f md) (map fst (remote w)))))"
proof -
  let ?w1 = "emit (Readdir (tmp_dir env)) (cloned env config w)"
  let ?wc = "\<lparr>worktree = remote w, staged = remote w, committed = remote w\<rparr>"
  let ?mdFiles = "filter (\<lambda>f. endsWith f md) (map fst (remote w))"
  have d: "map_of (disk ?w1) (tmp_dir env) = Some ?wc"
    by (simp add: emit_def disk_cloned)
  have rd: "fs_readdir env (tmp_dir env) (cloned env config w) = (Inr (map fst (remote w)), ?w1)"
    using d assms(3) by (simp add: fs_readdir_def Let_def)
  have "\<forall>f\<in>set ?mdFiles. stat_fail env f = None \<and> map_of (worktree ?wc) f \<noteq> None"
    using assms(4) by (auto simp: map_of_eq_None_iff)
  from stat_files_ok [OF d this, of "[]"]
  obtain w2 where st: "stat_files env (tmp_dir env) ?mdFiles [] ?w1
      = (Inr (map (page_info (remote w)) ?mdFiles), w2)"
    by (cases "stat_files env (tmp_dir env) ?mdFiles [] ?w1") simp
  show ?thesis
    unfolding listWikiPages_def
    by (simp add: with_clone_outcome [OF assms(1,2)] bind_def rd st return_def Let_def)
qed

lemma set_insert_sorted: "set (insert_sorted cmp x xs) = insert x (set xs)"
  by (induction xs) auto

lemma set_array_sort: "set (array_sort cmp xs) = set xs"
  by (induction xs) (simp_all add: array_sort_def set_insert_sorted)

lemma length_insert_sorted: "length (insert_sorted cmp x xs) = Suc (length xs)"
  by (induction xs) auto

lemma length_array_sort: "length (array_sort cmp xs) = length xs"
  by (induction xs) (simp_all add: array_sort_def length_insert_sorted)

lemma sorted_insert_sorted:
  assumes total: "\<And>a b. cmp a b \<le> 0 \<or> cmp b a \<le> 0"
    and trans: "\<And>a b c. cmp a b \<le> 0 \<Longrightarrow> cmp b c \<le> 0 \<Longrightarrow> cmp a c \<le> 0"
    and "sorted_wrt (\<lambda>a b. cmp a b \<le> 0) xs"
  shows "sorted_wrt (\<lambda>a b. cmp a b \<le> 0) (insert_sorted cmp x xs)"
  using assms(3)
proof (induction xs)
  case Nil
  then show ?case by simp
next
  case (Cons y ys)
  show ?case
  proof (cases "cmp x y \<le> 0")
    case True
    with Cons.prems trans show ?thesis
      by (auto simp: set_insert_sorted)
  next
    case False
    with total have "cmp y x \<le> 0" by blast
    with False Cons show ?thesis
      by (auto simp: set_insert_sorted)
  qed
qed

text \<open>
  The result of the sort is in ascending order for every comparison that orders the names:
  any two are comparable, and the comparison is transitive.
\<close>

lemma sorted_array_sort:
  assumes "\<And>a b. cmp a b \<le> 0 \<or> cmp b a \<le> 0"
    and "\<And>a b c. cmp a b \<le> 0 \<Longrightarrow> cmp b c \<le> 0 \<Longrightarrow> cmp a c \<le> 0"
  shows "sorted_wrt (\<lambda>a b. cmp a b \<le> 0) (array_sort cmp xs)"
proof (induction xs)
  case Nil
  then show ?case by (simp add: array_sort_def)
next
  case (Cons x xs)
  have "array_sort cmp (x # xs) = insert_sorted cmp x (array_sort cmp xs)"
    by (simp add: array_sort_def)
  with sorted_insert_sorted [of cmp "array_sort cmp xs" x, OF assms Cons] show ?case
    by simp
qed

text \<open>
  The name is the file name without the extension as long as no \<^verbatim>\<open>.md\<close> stands earlier
  in the file name, as for a file name without a full stop before the extension.
\<close>

lemma replace_first_extension: "0x2E \<notin> set n \<Longrightarrow> replace_first md [] (n @ md) = n"
proof (induction n)
  case Nil
  then show ?case by (simp add: md_unfold)
next
  case (Cons c n)
  then have "take (length md) ((c # n) @ md) \<noteq> md"
    by (auto simp: md_unfold)
  with Cons show ?case by simp
qed

text \<open>
  Claim C7. The list operation gives one record for each file whose name ends with the
  extension, with the file name as path, the file name minus the extension as name and the
  size in bytes, sorted by name. For the file \<^verbatim>\<open>notes.mdx.md\<close> the source gives the
  name \<^verbatim>\<open>notesx.md\<close>, not \<^verbatim>\<open>notes.mdx\<close>: \<^verbatim>\<open>file.replace('.md', '')\<close> removes the
  first \<^verbatim>\<open>.md\<close> of the file name, not the extension at its end.
\<close>

theorem listWikiPages_name_of_inner_extension:
  "fst (listWikiPages env_ok wiki store0)
     = Inr [\<lparr>name = js ''Empty'', path = js ''Empty.md'', size_bytes = 0\<rparr>,
            \<lparr>name = js ''Home'', path = js ''Home.md'', size_bytes = 3\<rparr>,
            \<lparr>name = js ''notesx.md'', path = js ''notes.mdx.md'', size_bytes = 3\<rparr>]"
  by code_simp

text \<open>
  Claim C8. When the clone fails, the temporary directory is removed before the error
  propagates and the operation fails with an error whose message is
  \<^verbatim>\<open>Failed to clone wiki: \<close> and the message of the client. In the source the removal
  inside \<^verbatim>\<open>cloneWiki\<close> is not guarded: when it fails too, its error is what the operation
  throws, the message of the client is lost and the directory stays.
\<close>

theorem clone_failure_masked_by_removal:
  "clone_fail env_no_clone = Some (Error (js ''Authentication failed''))
   \<and> fst (readWikiPage env_no_clone home_args store0) = Inl (Error (js ''EBUSY''))
   \<and> map_of (disk (snd (readWikiPage env_no_clone home_args store0))) (js ''/tmp/wiki-Ab12Cd'')
       = Some empty_copy"
  by code_simp

end
